theory Spec2Isabelle
  imports Main "HOL-Library.Char_ord" "HOL-Library.List_Lexorder" "HOL-Library.Monad_Syntax"
begin

section \<open>Outcomes\<close>

text \<open>
  A call either returns or runs into undefined behaviour of C++: an integer remainder by
  zero, which traps on the usual targets, or a character classification of a negative
  \<open>char\<close>. Neither is a C++ exception: no \<open>catch\<close> sees it.
\<close>

datatype 'a outcome = Returns 'a | Undefined_Behaviour

section \<open>Strings\<close>

text \<open>
  \<open>std::string\<close> is a byte string: \<open>string\<close> (a \<open>char list\<close>). The operations below are
  the ones the runtime calls. \<open>npos\<close> is \<open>None\<close>.
\<close>

definition find_char :: "char \<Rightarrow> string \<Rightarrow> nat option" where
  \<comment> \<open>\<open>s.find(c)\<close>: index of the first occurrence.\<close>
  "find_char c s =
     (if c \<in> set s then Some (length (takeWhile (\<lambda>x. x \<noteq> c) s)) else None)"

definition find_last_of :: "char \<Rightarrow> string \<Rightarrow> nat option" where
  \<comment> \<open>\<open>s.find_last_of(c)\<close>: index of the last occurrence.\<close>
  "find_last_of c s =
     (if c \<in> set s
      then Some (length s - Suc (length (takeWhile (\<lambda>x. x \<noteq> c) (rev s))))
      else None)"

definition substr :: "string \<Rightarrow> nat \<Rightarrow> nat \<Rightarrow> string" where
  \<comment> \<open>\<open>s.substr(pos, n)\<close> for \<open>pos \<le> size\<close>; every call site below guards that
      (a larger \<open>pos\<close> would raise \<open>std::out_of_range\<close>).\<close>
  "substr s pos n = take n (drop pos s)"

definition substr_from :: "string \<Rightarrow> nat \<Rightarrow> string" where
  \<comment> \<open>\<open>s.substr(pos)\<close>, also \<open>s.substr(pos, n)\<close> with \<open>n\<close> past the end.\<close>
  "substr_from s pos = drop pos s"

definition erase_leading :: "string \<Rightarrow> string \<Rightarrow> string" where
  \<comment> \<open>\<open>s.erase(0, s.find_first_not_of(cs))\<close>; with \<open>npos\<close> everything goes.\<close>
  "erase_leading cs s = dropWhile (\<lambda>x. x \<in> set cs) s"

definition erase_trailing :: "string \<Rightarrow> string \<Rightarrow> string" where
  \<comment> \<open>\<open>s.erase(s.find_last_not_of(cs) + 1)\<close>; \<open>npos + 1\<close> wraps to 0.\<close>
  "erase_trailing cs s = rev (dropWhile (\<lambda>x. x \<in> set cs) (rev s))"

definition blanks :: string where
  "blanks = [CHR '' '', CHR 0x09]"

definition trim :: "string \<Rightarrow> string" where
  "trim s = erase_trailing blanks (erase_leading blanks s)"

fun getline_all :: "char \<Rightarrow> string \<Rightarrow> string \<Rightarrow> string list" where
  \<comment> \<open>All the lines \<open>while (std::getline(iss, line, d))\<close> yields: the text is cut at every
      \<open>d\<close>; at the end of input a line is produced only if it has a character.\<close>
  "getline_all d acc [] = (if acc = [] then [] else [rev acc])"
| "getline_all d acc (c # cs) =
     (if c = d then rev acc # getline_all d [] cs else getline_all d (c # acc) cs)"

definition isalpha :: "char \<Rightarrow> bool outcome" where
  \<comment> \<open>\<open>std::isalpha(c)\<close> of a plain \<open>char\<close> in the C locale. Its argument must have the
      value of an \<open>unsigned char\<close>; a byte from \<open>0x80\<close> on is a negative \<open>char\<close> where
      \<open>char\<close> is signed, and the call is undefined.\<close>
  "isalpha c =
     (let n = (of_char c :: nat)
      in if 128 \<le> n then Undefined_Behaviour
         else Returns ((65 \<le> n \<and> n \<le> 90) \<or> (97 \<le> n \<and> n \<le> 122)))"

definition ascii :: "string \<Rightarrow> bool" where
  \<comment> \<open>Every byte of the string is below \<open>0x80\<close>.\<close>
  "ascii s = list_all (\<lambda>c. (of_char c :: nat) < 128) s"

definition isdigit :: "char \<Rightarrow> bool" where
  "isdigit c = (let n = (of_char c :: nat) in 48 \<le> n \<and> n \<le> 57)"

definition isspace :: "char \<Rightarrow> bool" where
  "isspace c = (c \<in> set [CHR '' '', CHR 0x09, CHR 0x0A, CHR 0x0B, CHR 0x0C, CHR 0x0D])"

section \<open>Numbers\<close>

definition digit_char :: "nat \<Rightarrow> char" where
  "digit_char n = ''0123456789'' ! n"

function to_string_nat :: "nat \<Rightarrow> string" where
  \<comment> \<open>\<open>std::to_string\<close> of a \<open>size_t\<close>.\<close>
  "to_string_nat n =
     (if n < 10 then [digit_char n] else to_string_nat (n div 10) @ [digit_char (n mod 10)])"
  by pat_completeness auto
termination
  by (relation "measure id") auto

declare to_string_nat.simps [simp del]

definition to_string_int :: "int \<Rightarrow> string" where
  \<comment> \<open>\<open>std::to_string\<close> of an \<open>int\<close>.\<close>
  "to_string_int i = (if i < 0 then CHR ''-'' # to_string_nat (nat (- i)) else to_string_nat (nat i))"

fun decimal_value :: "nat \<Rightarrow> string \<Rightarrow> nat" where
  "decimal_value acc [] = acc"
| "decimal_value acc (c # cs) = decimal_value (10 * acc + (of_char c - 48)) cs"

definition INT_MIN :: int where "INT_MIN = - 2147483648"
definition INT_MAX :: int where "INT_MAX = 2147483647"

definition stoi :: "string \<Rightarrow> int option" where
  \<comment> \<open>\<open>std::stoi(s)\<close>: leading white space, an optional sign, decimal digits; the rest of
      the string is ignored. \<open>None\<close> is an exception: \<open>std::invalid_argument\<close> with no
      digit, \<open>std::out_of_range\<close> outside \<open>int\<close>.\<close>
  "stoi s =
     (let t = dropWhile isspace s;
          neg = (t \<noteq> [] \<and> hd t = CHR ''-'');
          u = (if t \<noteq> [] \<and> (hd t = CHR ''-'' \<or> hd t = CHR ''+'') then tl t else t);
          ds = takeWhile isdigit u;
          v = (if neg then - int (decimal_value 0 ds) else int (decimal_value 0 ds))
      in if ds = [] then None
         else if INT_MIN \<le> v \<and> v \<le> INT_MAX then Some v
         else None)"

text \<open>
  \<open>double\<close> arithmetic, \<open>std::stod\<close> and \<open>std::to_string(double)\<close> belong to the C++
  implementation, not to the repository: they are parameters of the model. \<open>stod\<close> returns
  \<open>None\<close> where the library function throws.
\<close>

record 'f double_ops =
  stod :: "string \<Rightarrow> 'f option"
  to_string_double :: "'f \<Rightarrow> string"
  d_zero :: 'f
  d_add :: "'f \<Rightarrow> 'f \<Rightarrow> 'f"
  d_sub :: "'f \<Rightarrow> 'f \<Rightarrow> 'f"
  d_mul :: "'f \<Rightarrow> 'f \<Rightarrow> 'f"
  d_div :: "'f \<Rightarrow> 'f \<Rightarrow> 'f"
  d_neg :: "'f \<Rightarrow> 'f"
  d_eq :: "'f \<Rightarrow> 'f \<Rightarrow> bool"
  d_less :: "'f \<Rightarrow> 'f \<Rightarrow> bool"
  d_less_eq :: "'f \<Rightarrow> 'f \<Rightarrow> bool"

section \<open>std::map\<close>

text \<open>
  A \<open>std::map<std::string, V>\<close> is a list of pairs in key order, as its iteration shows
  it. \<open>map_set\<close> is \<open>m[k] = v\<close>.
\<close>

fun map_set :: "string \<Rightarrow> 'v \<Rightarrow> (string \<times> 'v) list \<Rightarrow> (string \<times> 'v) list" where
  "map_set k v [] = [(k, v)]"
| "map_set k v ((k', v') # m) =
     (if k = k' then (k, v) # m
      else if k < k' then (k, v) # (k', v') # m
      else (k', v') # map_set k v m)"

definition map_find :: "string \<Rightarrow> (string \<times> 'v) list \<Rightarrow> 'v option" where
  "map_find k m = map_of m k"

section \<open>The state store (state_store.h, state_store.cpp)\<close>

text \<open>
  \<open>enum class ValueType\<close> has underlying type \<open>int\<close>; \<open>static_cast<ValueType>\<close> of any
  \<open>int\<close> is a value of the type, so the tag is an \<open>int\<close>.
\<close>

type_synonym ValueType = int

definition ValueType_STRING :: ValueType where "ValueType_STRING = 0"
definition ValueType_INT :: ValueType where "ValueType_INT = 1"
definition ValueType_BOOL :: ValueType where "ValueType_BOOL = 2"
definition ValueType_FLOAT :: ValueType where "ValueType_FLOAT = 3"

record StateValue =
  sv_type :: ValueType
  sv_value :: string

definition StateValue_default :: StateValue where
  "StateValue_default = \<lparr>sv_type = ValueType_STRING, sv_value = []\<rparr>"

definition from_string :: "string \<Rightarrow> StateValue" where
  "from_string val = \<lparr>sv_type = ValueType_STRING, sv_value = val\<rparr>"

type_synonym MemoryStateStore = "(string \<times> StateValue) list"

definition set_value :: "MemoryStateStore \<Rightarrow> string \<Rightarrow> StateValue \<Rightarrow> MemoryStateStore" where
  "set_value st k v = map_set k v st"

definition get_value :: "MemoryStateStore \<Rightarrow> string \<Rightarrow> StateValue" where
  "get_value st k = (case map_find k st of Some v \<Rightarrow> v | None \<Rightarrow> StateValue_default)"

definition has_key :: "MemoryStateStore \<Rightarrow> string \<Rightarrow> bool" where
  "has_key st k = (map_find k st \<noteq> None)"

definition MemoryStateStore_clear :: "MemoryStateStore \<Rightarrow> MemoryStateStore" where
  "MemoryStateStore_clear st = []"

definition StateManager_set :: "MemoryStateStore \<Rightarrow> string \<Rightarrow> string \<Rightarrow> MemoryStateStore" where
  "StateManager_set st k v = set_value st k (from_string v)"

definition get_string :: "MemoryStateStore \<Rightarrow> string \<Rightarrow> string \<Rightarrow> string" where
  "get_string st k default_value =
     (let v = get_value st k
      in if sv_value v = [] \<and> \<not> has_key st k then default_value else sv_value v)"

definition get_all_strings :: "MemoryStateStore \<Rightarrow> (string \<times> string) list" where
  \<comment> \<open>\<open>for (const auto& [key, value] : all_values) result[key] = value.to_string()\<close>.\<close>
  "get_all_strings st = fold (\<lambda>(k, v) acc. map_set k (sv_value v) acc) st []"

section \<open>The variable resolver (logic_engine.cpp)\<close>

text \<open>
  \<open>StateVariableResolver\<close> holds a pointer to the runtime's state manager and its own
  parameter map. The runtime and the resolver share the one store, so the model keeps a
  single copy, in the resolver. \<open>CardityRuntime::initialize_runtime\<close> installs the state
  manager and the resolver before any call and nothing resets them: the null branches of
  the source (\<open>if (!resolver)\<close>, \<open>if (state_manager)\<close>) are never taken and are left out.
  The parameter map is only looked up and updated, never iterated.
\<close>

record StateVariableResolver =
  state_manager :: MemoryStateStore
  params :: "string \<rightharpoonup> string"

definition set_parameters ::
  "StateVariableResolver \<Rightarrow> (string \<rightharpoonup> string) \<Rightarrow> StateVariableResolver" where
  "set_parameters r parameters = r\<lparr>params := parameters\<rparr>"

definition set_parameter ::
  "StateVariableResolver \<Rightarrow> string \<Rightarrow> string \<Rightarrow> StateVariableResolver" where
  "set_parameter r n v = r\<lparr>params := (params r)(n \<mapsto> v)\<rparr>"

definition resolve_variable :: "StateVariableResolver \<Rightarrow> string \<Rightarrow> string" where
  "resolve_variable r n =
     (if substr n 0 7 = ''params.'' then
        (case params r (substr_from n 7) of Some v \<Rightarrow> v | None \<Rightarrow> [])
      else if substr n 0 6 = ''state.'' then
        get_string (state_manager r) (substr_from n 6) []
      else
        (case params r n of
           Some v \<Rightarrow> v
         | None \<Rightarrow> get_string (state_manager r) n []))"

definition set_variable ::
  "StateVariableResolver \<Rightarrow> string \<Rightarrow> string \<Rightarrow> StateVariableResolver" where
  "set_variable r n v =
     (if substr n 0 6 = ''state.'' then
        r\<lparr>state_manager := StateManager_set (state_manager r) (substr_from n 6) v\<rparr>
      else if substr n 0 7 = ''params.'' then
        r\<lparr>params := (params r)(substr_from n 7 \<mapsto> v)\<rparr>
      else
        r\<lparr>state_manager := StateManager_set (state_manager r) n v\<rparr>)"

section \<open>The logic engine (logic_engine.h, logic_engine.cpp)\<close>

datatype ExpressionType = LITERAL | VARIABLE | BINARY_OP | UNARY_OP | FUNCTION_CALL

datatype OperatorType =
  ADD | SUB | MUL | DIV | MOD | EQ | NE | LT | GT | LE | GE | AND | OR | NOT | ASSIGN

datatype ExpressionNode =
  ExpressionNode
    (node_type: ExpressionType)
    (node_value: string)
    (node_op: OperatorType)
    (node_left: "ExpressionNode option")
    (node_right: "ExpressionNode option")

definition parse_expression :: "string \<Rightarrow> ExpressionNode outcome" where
  \<comment> \<open>The second test is \<open>find('.') != npos || (length() > 0 && std::isalpha(expression[0]))\<close>:
      \<open>std::isalpha\<close> is called only when there is no dot and the text is not empty.\<close>
  "parse_expression expression =
     (case find_char CHR ''='' expression of
        Some assign_pos \<Rightarrow>
          Returns
            (ExpressionNode BINARY_OP [] ASSIGN
               (Some (ExpressionNode VARIABLE (substr expression 0 assign_pos) ADD None None))
               (Some (ExpressionNode LITERAL (substr_from expression (assign_pos + 1)) ADD None None)))
      | None \<Rightarrow>
          if find_char CHR ''.'' expression \<noteq> None
          then Returns (ExpressionNode VARIABLE expression ADD None None)
          else if length expression > 0 then
            (case isalpha (hd expression) of
               Undefined_Behaviour \<Rightarrow> Undefined_Behaviour
             | Returns alpha \<Rightarrow>
                 if alpha then Returns (ExpressionNode VARIABLE expression ADD None None)
                 else Returns (ExpressionNode LITERAL expression ADD None None))
          else Returns (ExpressionNode LITERAL expression ADD None None))"

definition string_to_bool :: "string \<Rightarrow> bool" where
  "string_to_bool v =
     (if v = ''true'' \<or> v = ''1'' then True
      else if v = ''false'' \<or> v = ''0'' then False
      else v \<noteq> [])"

definition string_to_int :: "string \<Rightarrow> int" where
  "string_to_int v = (case stoi v of Some i \<Rightarrow> i | None \<Rightarrow> 0)"

definition string_to_float :: "'f double_ops \<Rightarrow> string \<Rightarrow> 'f" where
  "string_to_float D v = (case stod D v of Some x \<Rightarrow> x | None \<Rightarrow> d_zero D)"

definition bool_to_string :: "bool \<Rightarrow> string" where
  "bool_to_string b = (if b then ''true'' else ''false'')"

definition parse_literal :: "string \<Rightarrow> string" where
  "parse_literal literal =
     (if length literal \<ge> 2
         \<and> ((hd literal = CHR 0x22 \<and> last literal = CHR 0x22)
            \<or> (hd literal = CHR 0x27 \<and> last literal = CHR 0x27))
      then substr literal 1 (length literal - 2)
      else literal)"

definition parse_variable :: "StateVariableResolver \<Rightarrow> string \<Rightarrow> string" where
  "parse_variable r var_name =
     (if substr var_name 0 6 = ''state.'' then resolve_variable r (substr_from var_name 6)
      else if substr var_name 0 7 = ''params.'' then resolve_variable r (substr_from var_name 7)
      else resolve_variable r var_name)"

definition int_rem :: "int \<Rightarrow> int \<Rightarrow> int" where
  \<comment> \<open>\<open>a % b\<close> of C++ for \<open>b \<noteq> 0\<close>: the quotient is truncated towards zero.\<close>
  "int_rem a b = sgn a * (\<bar>a\<bar> mod \<bar>b\<bar>)"

definition execute_binary_op ::
  "'f double_ops \<Rightarrow> StateVariableResolver \<Rightarrow> OperatorType \<Rightarrow> string \<Rightarrow> string
     \<Rightarrow> (string \<times> StateVariableResolver) outcome" where
  "execute_binary_op D r op l rt =
     (case op of
        ADD \<Rightarrow> Returns (to_string_double D (d_add D (string_to_float D l) (string_to_float D rt)), r)
      | SUB \<Rightarrow> Returns (to_string_double D (d_sub D (string_to_float D l) (string_to_float D rt)), r)
      | MUL \<Rightarrow> Returns (to_string_double D (d_mul D (string_to_float D l) (string_to_float D rt)), r)
      | DIV \<Rightarrow>
          if d_eq D (string_to_float D rt) (d_zero D) then Returns (''0'', r)
          else Returns (to_string_double D (d_div D (string_to_float D l) (string_to_float D rt)), r)
      | MOD \<Rightarrow>
          if string_to_int rt = 0 \<or> (string_to_int l = INT_MIN \<and> string_to_int rt = - 1)
          then Undefined_Behaviour
          else Returns (to_string_int (int_rem (string_to_int l) (string_to_int rt)), r)
      | EQ \<Rightarrow> Returns (bool_to_string (l = rt), r)
      | NE \<Rightarrow> Returns (bool_to_string (l \<noteq> rt), r)
      | LT \<Rightarrow> Returns (bool_to_string (d_less D (string_to_float D l) (string_to_float D rt)), r)
      | GT \<Rightarrow> Returns (bool_to_string (d_less D (string_to_float D rt) (string_to_float D l)), r)
      | LE \<Rightarrow> Returns (bool_to_string (d_less_eq D (string_to_float D l) (string_to_float D rt)), r)
      | GE \<Rightarrow> Returns (bool_to_string (d_less_eq D (string_to_float D rt) (string_to_float D l)), r)
      | AND \<Rightarrow> Returns (bool_to_string (string_to_bool l \<and> string_to_bool rt), r)
      | OR \<Rightarrow> Returns (bool_to_string (string_to_bool l \<or> string_to_bool rt), r)
      | ASSIGN \<Rightarrow> Returns (rt, set_variable r l rt)
      | NOT \<Rightarrow> Returns (l, r))"

definition execute_unary_op :: "'f double_ops \<Rightarrow> OperatorType \<Rightarrow> string \<Rightarrow> string" where
  "execute_unary_op D op operand =
     (if op = NOT then bool_to_string (\<not> string_to_bool operand)
      else if op = SUB then to_string_double D (d_neg D (string_to_float D operand))
      else operand)"

fun evaluate_node ::
  "'f double_ops \<Rightarrow> StateVariableResolver \<Rightarrow> ExpressionNode
     \<Rightarrow> (string \<times> StateVariableResolver) outcome" where
  "evaluate_node D r (ExpressionNode LITERAL v op lft rgt) = Returns (parse_literal v, r)"
| "evaluate_node D r (ExpressionNode VARIABLE v op lft rgt) = Returns (parse_variable r v, r)"
| "evaluate_node D r (ExpressionNode BINARY_OP v op (Some lft) (Some rgt)) =
     (case evaluate_node D r lft of
        Undefined_Behaviour \<Rightarrow> Undefined_Behaviour
      | Returns (left_val, r1) \<Rightarrow>
          (case evaluate_node D r1 rgt of
             Undefined_Behaviour \<Rightarrow> Undefined_Behaviour
           | Returns (right_val, r2) \<Rightarrow> execute_binary_op D r2 op left_val right_val))"
| "evaluate_node D r (ExpressionNode BINARY_OP v op None rgt) = Returns ([], r)"
| "evaluate_node D r (ExpressionNode BINARY_OP v op (Some lft) None) = Returns ([], r)"
| "evaluate_node D r (ExpressionNode UNARY_OP v op (Some lft) rgt) =
     (case evaluate_node D r lft of
        Undefined_Behaviour \<Rightarrow> Undefined_Behaviour
      | Returns (operand, r1) \<Rightarrow> Returns (execute_unary_op D op operand, r1))"
| "evaluate_node D r (ExpressionNode UNARY_OP v op None rgt) = Returns ([], r)"
| "evaluate_node D r (ExpressionNode FUNCTION_CALL v op lft rgt) = Returns ([], r)"

definition evaluate_expression ::
  "'f double_ops \<Rightarrow> StateVariableResolver \<Rightarrow> string
     \<Rightarrow> (string \<times> StateVariableResolver) outcome" where
  "evaluate_expression D r expression =
     (case parse_expression expression of
        Undefined_Behaviour \<Rightarrow> Undefined_Behaviour
      | Returns node \<Rightarrow> evaluate_node D r node)"

definition execute_assignment ::
  "'f double_ops \<Rightarrow> StateVariableResolver \<Rightarrow> string
     \<Rightarrow> (bool \<times> StateVariableResolver) outcome" where
  "execute_assignment D r assignment =
     (case find_char CHR ''='' assignment of
        None \<Rightarrow> Returns (False, r)
      | Some assign_pos \<Rightarrow>
          (case evaluate_expression D r (trim (substr_from assignment (assign_pos + 1))) of
             Undefined_Behaviour \<Rightarrow> Undefined_Behaviour
           | Returns (val, r1) \<Rightarrow>
               Returns (True, set_variable r1 (trim (substr assignment 0 assign_pos)) val)))"

definition execute_condition ::
  "'f double_ops \<Rightarrow> StateVariableResolver \<Rightarrow> string
     \<Rightarrow> (bool \<times> StateVariableResolver) outcome" where
  "execute_condition D r condition =
     (case evaluate_expression D r condition of
        Undefined_Behaviour \<Rightarrow> Undefined_Behaviour
      | Returns (result, r1) \<Rightarrow> Returns (string_to_bool result, r1))"

text \<open>
  The two loops of \<open>execute_method_logic\<close> run over the lines \<open>std::getline\<close> cuts at
  \<open>;\<close>. The loop state is \<open>last_result\<close> and the resolver.
\<close>

fun run_lines ::
  "('s \<Rightarrow> string \<Rightarrow> 's outcome) \<Rightarrow> 's \<Rightarrow> string list \<Rightarrow> 's outcome" where
  "run_lines f s [] = Returns s"
| "run_lines f s (l # ls) =
     (case f s l of
        Undefined_Behaviour \<Rightarrow> Undefined_Behaviour
      | Returns s' \<Rightarrow> run_lines f s' ls)"

definition execute_body_line ::
  "'f double_ops \<Rightarrow> string \<times> StateVariableResolver \<Rightarrow> string
     \<Rightarrow> (string \<times> StateVariableResolver) outcome" where
  \<comment> \<open>The body of the inner loop, over the lines between the braces of an \<open>if\<close>.\<close>
  "execute_body_line D s raw =
     (if trim raw = [] then Returns s
      else if substr (trim raw) 0 4 = ''emit'' then Returns s
      else if find_char CHR ''='' (trim raw) \<noteq> None then
        (case execute_assignment D (snd s) (trim raw) of
           Undefined_Behaviour \<Rightarrow> Undefined_Behaviour
         | Returns (ok, r1) \<Rightarrow> Returns (fst s, r1))
      else evaluate_expression D (snd s) (trim raw))"

definition execute_if ::
  "'f double_ops \<Rightarrow> string \<times> StateVariableResolver \<Rightarrow> string
     \<Rightarrow> (string \<times> StateVariableResolver) outcome" where
  \<comment> \<open>The branch of the outer loop for a line that starts with \<open>if\<close>. The line has at
      least two characters, so \<open>substr(2, ...)\<close> is in range, and a \<open>{\<close> stands at
      index 2 or later. When the last \<open>}\<close> stands before the first \<open>{\<close>, the length
      \<open>close_brace - open_brace - 1\<close> wraps around and the body runs to the end of the
      line.\<close>
  "execute_if D s line =
     (case find_char CHR ''{'' line of
        None \<Rightarrow> Returns s
      | Some open_brace \<Rightarrow>
          (case find_last_of CHR ''}'' line of
             None \<Rightarrow> Returns s
           | Some close_brace \<Rightarrow>
               (case execute_condition D (snd s)
                       (erase_trailing (blanks @ '')'')
                          (erase_leading (blanks @ ''('') (substr line 2 (open_brace - 2)))) of
                  Undefined_Behaviour \<Rightarrow> Undefined_Behaviour
                | Returns (c, r1) \<Rightarrow>
                    if c then
                      run_lines (execute_body_line D) (fst s, r1)
                        (getline_all CHR '';'' []
                           (if open_brace < close_brace
                            then substr line (open_brace + 1) (close_brace - open_brace - 1)
                            else substr_from line (open_brace + 1)))
                    else Returns (fst s, r1))))"

definition execute_line ::
  "'f double_ops \<Rightarrow> string \<times> StateVariableResolver \<Rightarrow> string
     \<Rightarrow> (string \<times> StateVariableResolver) outcome" where
  \<comment> \<open>The body of the outer loop.\<close>
  "execute_line D s raw =
     (if trim raw = [] then Returns s
      else if substr (trim raw) 0 4 = ''emit'' then Returns s
      else if length (trim raw) \<ge> 2 \<and> substr (trim raw) 0 2 = ''if'' then execute_if D s (trim raw)
      else if find_char CHR ''='' (trim raw) \<noteq> None then
        (case execute_assignment D (snd s) (trim raw) of
           Undefined_Behaviour \<Rightarrow> Undefined_Behaviour
         | Returns (ok, r1) \<Rightarrow> Returns (fst s, r1))
      else evaluate_expression D (snd s) (trim raw))"

definition execute_method_logic ::
  "'f double_ops \<Rightarrow> StateVariableResolver \<Rightarrow> string \<Rightarrow> string list
     \<Rightarrow> (string \<times> StateVariableResolver) outcome" where
  "execute_method_logic D r logic args =
     run_lines (execute_line D) ([], r) (getline_all CHR '';'' [] logic)"

section \<open>JSON values (nlohmann::json)\<close>

text \<open>
  The JSON library is not part of the repository. A value is modelled as the library
  stores it: an object is a \<open>std::map\<close> (keys in order), numbers are integers (a number
  with a fraction is outside the model: no function below produces one). A library call
  that throws \<open>json::exception\<close> returns \<open>None\<close>.
\<close>

datatype json =
  JNull | JBool bool | JInt int | JString string | JArray "json list"
  | JObject "(string \<times> json) list"

definition json_contains :: "json \<Rightarrow> string \<Rightarrow> bool" where
  \<comment> \<open>\<open>j.contains(key)\<close>: false for anything but an object.\<close>
  "json_contains j k = (case j of JObject kvs \<Rightarrow> map_find k kvs \<noteq> None | _ \<Rightarrow> False)"

definition json_at :: "json \<Rightarrow> string \<Rightarrow> json" where
  \<comment> \<open>\<open>j[key]\<close> after \<open>j.contains(key)\<close> has held.\<close>
  "json_at j k = (case j of JObject kvs \<Rightarrow> (case map_find k kvs of Some v \<Rightarrow> v | None \<Rightarrow> JNull) | _ \<Rightarrow> JNull)"

definition json_get_string :: "json \<Rightarrow> string option" where
  \<comment> \<open>\<open>j.get<std::string>()\<close>; \<open>type_error.302\<close> for anything but a string.\<close>
  "json_get_string j = (case j of JString s \<Rightarrow> Some s | _ \<Rightarrow> None)"

definition json_value_string :: "json \<Rightarrow> string \<Rightarrow> string \<Rightarrow> string option" where
  \<comment> \<open>\<open>j.value(key, default)\<close> with a string default: \<open>type_error.306\<close> when \<open>j\<close> is no
      object, \<open>type_error.302\<close> when the key holds no string.\<close>
  "json_value_string j k d =
     (case j of
        JObject kvs \<Rightarrow> (case map_find k kvs of Some v \<Rightarrow> json_get_string v | None \<Rightarrow> Some d)
      | _ \<Rightarrow> None)"

definition wrap_int32 :: "int \<Rightarrow> int" where
  \<comment> \<open>\<open>static_cast<int>\<close> of a 64-bit integer.\<close>
  "wrap_int32 n = (n + 2147483648) mod 4294967296 - 2147483648"

definition json_get_int :: "json \<Rightarrow> int option" where
  \<comment> \<open>\<open>j.get<int>()\<close>: numbers and booleans convert, anything else is \<open>type_error.302\<close>.\<close>
  "json_get_int j =
     (case j of
        JInt n \<Rightarrow> Some (wrap_int32 n)
      | JBool b \<Rightarrow> Some (if b then 1 else 0)
      | _ \<Rightarrow> None)"

fun get_strings :: "json list \<Rightarrow> string list option" where
  "get_strings [] = Some []"
| "get_strings (j # js) =
     (case json_get_string j of
        None \<Rightarrow> None
      | Some s \<Rightarrow> (case get_strings js of None \<Rightarrow> None | Some ss \<Rightarrow> Some (s # ss)))"

definition json_get_string_vector :: "json \<Rightarrow> string list option" where
  \<comment> \<open>\<open>j.get<std::vector<std::string>>()\<close>.\<close>
  "json_get_string_vector j = (case j of JArray js \<Rightarrow> get_strings js | _ \<Rightarrow> None)"

definition json_items :: "json \<Rightarrow> (string \<times> json) list" where
  \<comment> \<open>What \<open>for (auto& [key, val] : j.items())\<close> visits: the members of an object, the
      elements of an array under their indices, nothing for null, the value itself under
      the empty key otherwise.\<close>
  "json_items j =
     (case j of
        JObject kvs \<Rightarrow> kvs
      | JArray js \<Rightarrow> zip (map to_string_nat [0..<length js]) js
      | JNull \<Rightarrow> []
      | _ \<Rightarrow> [([], j)])"

definition json_elements :: "json \<Rightarrow> json list" where
  \<comment> \<open>What \<open>for (const auto& x : j)\<close> visits.\<close>
  "json_elements j = map snd (json_items j)"

definition json_is_array :: "json \<Rightarrow> bool" where
  "json_is_array j = (case j of JArray js \<Rightarrow> True | _ \<Rightarrow> False)"

definition json_is_object :: "json \<Rightarrow> bool" where
  "json_is_object j = (case j of JObject kvs \<Rightarrow> True | _ \<Rightarrow> False)"

definition json_is_string :: "json \<Rightarrow> bool" where
  "json_is_string j = (case j of JString s \<Rightarrow> True | _ \<Rightarrow> False)"

section \<open>Snapshots of the store (state_store.cpp)\<close>

definition MemoryStateStore_create_snapshot :: "string \<Rightarrow> MemoryStateStore \<Rightarrow> json" where
  \<comment> \<open>The first argument is \<open>std::to_string(std::time(nullptr))\<close>.\<close>
  "MemoryStateStore_create_snapshot now st =
     JObject
       (map_set ''state''
          (JObject
             (fold (\<lambda>(k, v) acc.
                      map_set k (JObject (map_set ''value'' (JString (sv_value v))
                                           (map_set ''type'' (JInt (sv_type v)) []))) acc)
                st []))
          (map_set ''timestamp'' (JString now) []))"

definition json_index :: "json \<Rightarrow> string \<Rightarrow> json option outcome" where
  \<comment> \<open>\<open>j[key]\<close> on a \<open>const json&\<close> without a check before it: \<open>type_error.305\<close> when
      \<open>j\<close> is no object, and undefined (an assertion of the library) when the key is
      missing.\<close>
  "json_index j k =
     (case j of
        JObject kvs \<Rightarrow>
          (case map_find k kvs of Some v \<Rightarrow> Returns (Some v) | None \<Rightarrow> Undefined_Behaviour)
      | _ \<Rightarrow> Returns None)"

definition state_value_of_json :: "json \<Rightarrow> StateValue option outcome" where
  \<comment> \<open>The loop body of \<open>restore_from_snapshot\<close> up to the insertion; \<open>None\<close> is an
      exception.\<close>
  "state_value_of_json value_json =
     (case json_index value_json ''type'' of
        Undefined_Behaviour \<Rightarrow> Undefined_Behaviour
      | Returns None \<Rightarrow> Returns None
      | Returns (Some tj) \<Rightarrow>
          (case json_get_int tj of
             None \<Rightarrow> Returns None
           | Some t \<Rightarrow>
               (case json_index value_json ''value'' of
                  Undefined_Behaviour \<Rightarrow> Undefined_Behaviour
                | Returns None \<Rightarrow> Returns None
                | Returns (Some vj) \<Rightarrow>
                    (case json_get_string vj of
                       None \<Rightarrow> Returns None
                     | Some v \<Rightarrow> Returns (Some \<lparr>sv_type = t, sv_value = v\<rparr>)))))"

fun restore_entries ::
  "MemoryStateStore \<Rightarrow> (string \<times> json) list \<Rightarrow> (bool \<times> MemoryStateStore) outcome" where
  "restore_entries st [] = Returns (True, st)"
| "restore_entries st ((k, value_json) # rest) =
     (case state_value_of_json value_json of
        Undefined_Behaviour \<Rightarrow> Undefined_Behaviour
      | Returns None \<Rightarrow> Returns (False, st)
      | Returns (Some v) \<Rightarrow> restore_entries (map_set k v st) rest)"

definition MemoryStateStore_restore_from_snapshot ::
  "MemoryStateStore \<Rightarrow> json \<Rightarrow> (bool \<times> MemoryStateStore) outcome" where
  "MemoryStateStore_restore_from_snapshot st snapshot =
     (if \<not> json_contains snapshot ''state'' then Returns (False, st)
      else restore_entries (MemoryStateStore_clear st) (json_items (json_at snapshot ''state'')))"

section \<open>The protocol loader (car_loader.h, car_loader.cpp)\<close>

record StateVariable =
  var_type :: string
  default_value :: string

record Method =
  method_params :: "string list"
  method_logic :: string
  method_returns :: string

record Event =
  event_params :: "string list"

record CPL =
  cpl_state :: "(string \<times> StateVariable) list"
  cpl_methods :: "(string \<times> Method) list"
  cpl_events :: "(string \<times> Event) list"
  cpl_owner :: string

record CarProtocol =
  car_p :: string
  car_op :: string
  car_protocol :: string
  car_version :: string
  car_cpl :: CPL
  car_abi :: json
  car_hash :: string
  car_signature :: string

definition CPL_default :: CPL where
  "CPL_default = \<lparr>cpl_state = [], cpl_methods = [], cpl_events = [], cpl_owner = []\<rparr>"

definition Method_default :: Method where
  "Method_default = \<lparr>method_params = [], method_logic = [], method_returns = []\<rparr>"

fun parse_state :: "(string \<times> json) list \<Rightarrow> CPL \<Rightarrow> CPL option" where
  "parse_state [] cpl = Some cpl"
| "parse_state ((name, var_json) # rest) cpl =
     do {
       t \<leftarrow> json_value_string var_json ''type'' ''string'';
       d \<leftarrow> json_value_string var_json ''default'' [];
       parse_state rest
         (cpl\<lparr>cpl_state := map_set name \<lparr>var_type = t, default_value = d\<rparr> (cpl_state cpl)\<rparr>)
     }"

fun join_logic :: "string \<Rightarrow> json list \<Rightarrow> string option" where
  \<comment> \<open>The loop over a \<open>logic\<close> array: \<open>if (!logic.empty()) logic += "; "; logic += stmt\<close>.\<close>
  "join_logic logic [] = Some logic"
| "join_logic logic (stmt # rest) =
     do {
       s \<leftarrow> json_get_string stmt;
       join_logic ((if logic \<noteq> [] then logic @ ''; '' else logic) @ s) rest
     }"

definition parse_method :: "json \<Rightarrow> Method option" where
  "parse_method method_json =
     do {
       ps \<leftarrow> (if json_contains method_json ''params''
              then json_get_string_vector (json_at method_json ''params'')
              else Some []);
       lg \<leftarrow> (if json_contains method_json ''logic''
              then (if json_is_array (json_at method_json ''logic'')
                    then join_logic [] (json_elements (json_at method_json ''logic''))
                    else json_get_string (json_at method_json ''logic''))
              else Some []);
       rs \<leftarrow> (if json_contains method_json ''returns''
              then (if json_is_object (json_at method_json ''returns'')
                    then (if json_contains (json_at method_json ''returns'') ''expr''
                          then json_get_string (json_at (json_at method_json ''returns'') ''expr'')
                          else Some [])
                    else json_get_string (json_at method_json ''returns''))
              else Some []);
       Some \<lparr>method_params = ps, method_logic = lg, method_returns = rs\<rparr>
     }"

fun parse_methods :: "(string \<times> json) list \<Rightarrow> CPL \<Rightarrow> CPL option" where
  "parse_methods [] cpl = Some cpl"
| "parse_methods ((name, method_json) # rest) cpl =
     do {
       m \<leftarrow> parse_method method_json;
       parse_methods rest (cpl\<lparr>cpl_methods := map_set name m (cpl_methods cpl)\<rparr>)
     }"

fun parse_event_params :: "json list \<Rightarrow> string list \<Rightarrow> string list option" where
  "parse_event_params [] acc = Some acc"
| "parse_event_params (param # rest) acc =
     (if json_is_object param \<and> json_contains param ''name'' then
        do { n \<leftarrow> json_get_string (json_at param ''name''); parse_event_params rest (acc @ [n]) }
      else if json_is_string param then
        do { n \<leftarrow> json_get_string param; parse_event_params rest (acc @ [n]) }
      else parse_event_params rest acc)"

fun parse_events :: "(string \<times> json) list \<Rightarrow> CPL \<Rightarrow> CPL option" where
  "parse_events [] cpl = Some cpl"
| "parse_events ((name, event_json) # rest) cpl =
     do {
       ps \<leftarrow> (if json_contains event_json ''params''
              then parse_event_params (json_elements (json_at event_json ''params'')) []
              else Some []);
       parse_events rest (cpl\<lparr>cpl_events := map_set name \<lparr>event_params = ps\<rparr> (cpl_events cpl)\<rparr>)
     }"

definition json_strings :: "string list \<Rightarrow> json" where
  "json_strings xs = JArray (map JString xs)"

definition method_abi :: "string \<times> Method \<Rightarrow> json" where
  "method_abi nm =
     (let base = map_set ''params'' (json_strings (method_params (snd nm)))
                   (map_set ''name'' (JString (fst nm)) [])
      in JObject (if method_returns (snd nm) \<noteq> []
                  then map_set ''returns'' (JString (method_returns (snd nm))) base
                  else base))"

definition event_abi :: "string \<times> Event \<Rightarrow> json" where
  "event_abi ne =
     JObject (map_set ''params'' (json_strings (event_params (snd ne)))
                (map_set ''name'' (JString (fst ne)) []))"

definition state_abi :: "string \<times> StateVariable \<Rightarrow> json" where
  "state_abi nv =
     JObject (map_set ''default'' (JString (default_value (snd nv)))
                (map_set ''type'' (JString (var_type (snd nv)))
                   (map_set ''name'' (JString (fst nv)) [])))"

definition generate_abi :: "CPL \<Rightarrow> string \<Rightarrow> string \<Rightarrow> json" where
  "generate_abi cpl protocol_name version =
     JObject
       (map_set ''state'' (JArray (map state_abi (cpl_state cpl)))
          (map_set ''events'' (JArray (map event_abi (cpl_events cpl)))
             (map_set ''methods'' (JArray (map method_abi (cpl_methods cpl)))
                (map_set ''version'' (JString version)
                   (map_set ''protocol'' (JString protocol_name) [])))))"

definition parse_cpl :: "json \<Rightarrow> CPL option" where
  \<comment> \<open>The block \<open>if (j.contains("cpl")) { ... }\<close> of \<open>load_from_json\<close>.\<close>
  "parse_cpl j =
     (if json_contains j ''cpl'' then
        (let cpl_json = json_at j ''cpl'' in
         do {
           c1 \<leftarrow> (if json_contains cpl_json ''state''
                  then parse_state (json_items (json_at cpl_json ''state'')) CPL_default
                  else Some CPL_default);
           c2 \<leftarrow> (if json_contains cpl_json ''methods''
                  then parse_methods (json_items (json_at cpl_json ''methods'')) c1
                  else Some c1);
           c3 \<leftarrow> (if json_contains cpl_json ''events''
                  then parse_events (json_items (json_at cpl_json ''events'')) c2
                  else Some c2);
           owner \<leftarrow> json_value_string cpl_json ''owner'' [];
           Some (c3\<lparr>cpl_owner := owner\<rparr>)
         })
      else Some CPL_default)"

text \<open>
  \<open>json::parse\<close> and \<open>calculate_hash\<close> (\<open>std::hash\<close> of the dumped document, which the
  C++ implementation defines) are parameters: \<open>parse\<close> returns \<open>None\<close> on a
  \<open>parse_error\<close>. \<open>load_from_json\<close> returns \<open>None\<close> for \<open>nullptr\<close>: both \<open>catch\<close>
  clauses end there.
\<close>

definition load_from_json ::
  "(string \<Rightarrow> json option) \<Rightarrow> (json \<Rightarrow> string) \<Rightarrow> string \<Rightarrow> CarProtocol option" where
  "load_from_json parse calculate_hash json_str =
     do {
       j \<leftarrow> parse json_str;
       p \<leftarrow> json_value_string j ''p'' [];
       op \<leftarrow> json_value_string j ''op'' [];
       protocol_name \<leftarrow> json_value_string j ''protocol'' [];
       version \<leftarrow> json_value_string j ''version'' [];
       hash \<leftarrow> json_value_string j ''hash'' [];
       signature \<leftarrow> json_value_string j ''signature'' [];
       cpl \<leftarrow> parse_cpl j;
       Some \<lparr>car_p = p, car_op = op, car_protocol = protocol_name, car_version = version,
             car_cpl = cpl, car_abi = generate_abi cpl protocol_name version,
             car_hash = (if hash = [] then calculate_hash j else hash),
             car_signature = signature\<rparr>
     }"

definition load_from_file ::
  "(string \<Rightarrow> string option) \<Rightarrow> (string \<Rightarrow> json option) \<Rightarrow> (json \<Rightarrow> string) \<Rightarrow> string
     \<Rightarrow> CarProtocol option" where
  \<comment> \<open>The first argument reads a file: \<open>None\<close> when it cannot be opened.\<close>
  "load_from_file read_file parse calculate_hash file_path =
     (case read_file file_path of
        None \<Rightarrow> None
      | Some contents \<Rightarrow> load_from_json parse calculate_hash contents)"

definition validate_protocol :: "CarProtocol \<Rightarrow> bool" where
  "validate_protocol pr =
     (if car_p pr \<noteq> ''cardinals'' then False
      else if car_op pr \<noteq> ''deploy'' then False
      else if car_protocol pr = [] then False
      else if car_version pr = [] then False
      else if cpl_owner (car_cpl pr) = [] then False
      else if list_ex (\<lambda>(name, var). var_type var = []) (cpl_state (car_cpl pr)) then False
      else if list_ex (\<lambda>(name, m). method_logic m = [] \<and> method_returns m = [])
                (cpl_methods (car_cpl pr)) then False
      else True)"

section \<open>The runtime (runtime.h, runtime.cpp)\<close>

record EventInstance =
  event_name :: string
  event_values :: "string list"
  event_timestamp :: string

record MethodResult =
  success :: bool
  return_value :: string
  events :: "EventInstance list"
  error_message :: string

record Snapshot =
  snapshot_protocol_name :: string
  snapshot_version :: string
  snapshot_state :: json
  snapshot_event_log :: "EventInstance list"
  snapshot_timestamp :: string
  snapshot_block_height :: string

record RuntimeConfig =
  enable_events :: bool
  enable_snapshots :: bool
  enable_persistence :: bool
  snapshot_interval :: string
  storage_path :: string

record CardityRuntime =
  protocol :: "CarProtocol option"
  resolver :: StateVariableResolver
  event_log :: "EventInstance list"
  config :: RuntimeConfig

definition RuntimeConfig_default :: RuntimeConfig where
  "RuntimeConfig_default =
     \<lparr>enable_events = True, enable_snapshots = True, enable_persistence = True,
      snapshot_interval = ''7d'', storage_path = []\<rparr>"

definition new_runtime :: CardityRuntime where
  \<comment> \<open>\<open>CardityRuntime()\<close>: \<open>initialize_runtime\<close> with the default configuration.\<close>
  "new_runtime =
     \<lparr>protocol = None, resolver = \<lparr>state_manager = [], params = Map.empty\<rparr>,
      event_log = [], config = RuntimeConfig_default\<rparr>"

definition MethodResult_default :: MethodResult where
  "MethodResult_default = \<lparr>success = False, return_value = [], events = [], error_message = []\<rparr>"

definition reset_state :: "CardityRuntime \<Rightarrow> CardityRuntime" where
  "reset_state rt =
     (case protocol rt of
        None \<Rightarrow> rt
      | Some pr \<Rightarrow>
          rt\<lparr>resolver := (resolver rt)
               \<lparr>state_manager :=
                  fold (\<lambda>(name, var) st. StateManager_set st name (default_value var))
                    (cpl_state (car_cpl pr)) (MemoryStateStore_clear (state_manager (resolver rt)))\<rparr>\<rparr>)"

definition load_protocol_from_json ::
  "(string \<Rightarrow> json option) \<Rightarrow> (json \<Rightarrow> string) \<Rightarrow> CardityRuntime \<Rightarrow> string
     \<Rightarrow> bool \<times> CardityRuntime" where
  "load_protocol_from_json parse calculate_hash rt json_str =
     (let rt1 = rt\<lparr>protocol := load_from_json parse calculate_hash json_str\<rparr>
      in case protocol rt1 of
           None \<Rightarrow> (False, rt1)
         | Some pr \<Rightarrow> if \<not> validate_protocol pr then (False, rt1) else (True, reset_state rt1))"

definition load_protocol ::
  "(string \<Rightarrow> string option) \<Rightarrow> (string \<Rightarrow> json option) \<Rightarrow> (json \<Rightarrow> string)
     \<Rightarrow> CardityRuntime \<Rightarrow> string \<Rightarrow> bool \<times> CardityRuntime" where
  "load_protocol read_file parse calculate_hash rt car_file_path =
     (let rt1 = rt\<lparr>protocol := load_from_file read_file parse calculate_hash car_file_path\<rparr>
      in case protocol rt1 of
           None \<Rightarrow> (False, rt1)
         | Some pr \<Rightarrow> if \<not> validate_protocol pr then (False, rt1) else (True, reset_state rt1))"

definition bind_parameters ::
  "StateVariableResolver \<Rightarrow> string list \<Rightarrow> string list \<Rightarrow> StateVariableResolver" where
  \<comment> \<open>\<open>for (i = 0; i < method.params.size(); ++i) resolver->set_parameter(method.params[i], args[i])\<close>,
      run only when both lists have the same length.\<close>
  "bind_parameters r ps args = fold (\<lambda>(n, v) r'. set_parameter r' n v) (zip ps args) r"

definition process_return_value ::
  "'f double_ops \<Rightarrow> StateVariableResolver \<Rightarrow> string \<Rightarrow> string
     \<Rightarrow> (string \<times> StateVariableResolver) outcome" where
  "process_return_value D r method_name return_expr = evaluate_expression D r return_expr"

text \<open>
  \<open>call_method\<close>: none of the operations inside its \<open>try\<close> block throws in this model
  (every \<open>substr\<close> position is guarded, the conversions catch their own exceptions), so
  the \<open>catch\<close> branch has no counterpart.
\<close>

definition call_method ::
  "'f double_ops \<Rightarrow> CardityRuntime \<Rightarrow> string \<Rightarrow> string list
     \<Rightarrow> (MethodResult \<times> CardityRuntime) outcome" where
  "call_method D rt method_name args =
     (case protocol rt of
        None \<Rightarrow> Returns (MethodResult_default\<lparr>error_message := ''No protocol loaded''\<rparr>, rt)
      | Some pr \<Rightarrow>
          (case map_find method_name (cpl_methods (car_cpl pr)) of
             None \<Rightarrow>
               Returns (MethodResult_default\<lparr>error_message := ''Method not found: '' @ method_name\<rparr>, rt)
           | Some method \<Rightarrow>
               if length args \<noteq> length (method_params method) then
                 Returns (MethodResult_default
                            \<lparr>error_message :=
                               ''Parameter count mismatch. Expected ''
                               @ to_string_nat (length (method_params method))
                               @ '', got '' @ to_string_nat (length args)\<rparr>, rt)
               else
                 (case (if method_logic method \<noteq> []
                        then execute_method_logic D
                               (bind_parameters (resolver rt) (method_params method) args)
                               (method_logic method) args
                        else Returns ([], bind_parameters (resolver rt) (method_params method) args)) of
                    Undefined_Behaviour \<Rightarrow> Undefined_Behaviour
                  | Returns (logic_result, r1) \<Rightarrow>
                      (case (if method_returns method \<noteq> []
                             then process_return_value D r1 method_name (method_returns method)
                             else Returns (logic_result, r1)) of
                         Undefined_Behaviour \<Rightarrow> Undefined_Behaviour
                       | Returns (ret, r2) \<Rightarrow>
                           Returns (MethodResult_default\<lparr>success := True, return_value := ret\<rparr>,
                                    rt\<lparr>resolver := r2\<rparr>)))))"

definition set_state :: "CardityRuntime \<Rightarrow> string \<Rightarrow> string \<Rightarrow> bool \<times> CardityRuntime" where
  "set_state rt k v =
     (True, rt\<lparr>resolver := (resolver rt)\<lparr>state_manager := StateManager_set (state_manager (resolver rt)) k v\<rparr>\<rparr>)"

definition get_state :: "CardityRuntime \<Rightarrow> string \<Rightarrow> string \<Rightarrow> string" where
  "get_state rt k default_val = get_string (state_manager (resolver rt)) k default_val"

definition get_all_state :: "CardityRuntime \<Rightarrow> json" where
  "get_all_state rt =
     JObject (fold (\<lambda>(k, v) acc. map_set k (JString v) acc)
                (get_all_strings (state_manager (resolver rt))) [])"

definition emit_event :: "string \<Rightarrow> CardityRuntime \<Rightarrow> string \<Rightarrow> string list \<Rightarrow> CardityRuntime" where
  \<comment> \<open>The first argument is \<open>generate_timestamp()\<close>, the wall clock.\<close>
  "emit_event now rt n vs =
     (if \<not> enable_events (config rt) then rt
      else rt\<lparr>event_log := event_log rt @ [\<lparr>event_name = n, event_values = vs, event_timestamp = now\<rparr>]\<rparr>)"

definition get_event_log :: "CardityRuntime \<Rightarrow> EventInstance list" where
  "get_event_log rt = event_log rt"

definition clear_event_log :: "CardityRuntime \<Rightarrow> CardityRuntime" where
  "clear_event_log rt = rt\<lparr>event_log := []\<rparr>"

definition create_snapshot :: "string \<Rightarrow> CardityRuntime \<Rightarrow> string \<Rightarrow> Snapshot" where
  \<comment> \<open>The first argument is \<open>generate_timestamp()\<close>.\<close>
  "create_snapshot now rt block_height =
     \<lparr>snapshot_protocol_name = (case protocol rt of Some pr \<Rightarrow> car_protocol pr | None \<Rightarrow> []),
      snapshot_version = (case protocol rt of Some pr \<Rightarrow> car_version pr | None \<Rightarrow> []),
      snapshot_state = get_all_state rt,
      snapshot_event_log = event_log rt,
      snapshot_timestamp = now,
      snapshot_block_height = block_height\<rparr>"

fun restore_state_items ::
  "MemoryStateStore \<Rightarrow> (string \<times> json) list \<Rightarrow> bool \<times> MemoryStateStore" where
  \<comment> \<open>The loop of \<open>restore_from_snapshot\<close>; \<open>False\<close> when \<open>get<std::string>()\<close> throws.\<close>
  "restore_state_items st [] = (True, st)"
| "restore_state_items st ((k, v) # rest) =
     (case json_get_string v of
        None \<Rightarrow> (False, st)
      | Some s \<Rightarrow> restore_state_items (StateManager_set st k s) rest)"

definition restore_from_snapshot :: "CardityRuntime \<Rightarrow> Snapshot \<Rightarrow> bool \<times> CardityRuntime" where
  "restore_from_snapshot rt snapshot =
     (case restore_state_items (state_manager (resolver rt)) (json_items (snapshot_state snapshot)) of
        (False, st) \<Rightarrow> (False, rt\<lparr>resolver := (resolver rt)\<lparr>state_manager := st\<rparr>\<rparr>)
      | (True, st) \<Rightarrow>
          (True, rt\<lparr>resolver := (resolver rt)\<lparr>state_manager := st\<rparr>,
                    event_log := snapshot_event_log snapshot\<rparr>))"

definition get_protocol_name :: "CardityRuntime \<Rightarrow> string" where
  "get_protocol_name rt = (case protocol rt of None \<Rightarrow> [] | Some pr \<Rightarrow> car_protocol pr)"

definition get_abi :: "CardityRuntime \<Rightarrow> json" where
  "get_abi rt = (case protocol rt of None \<Rightarrow> JObject [] | Some pr \<Rightarrow> car_abi pr)"

definition reset :: "CardityRuntime \<Rightarrow> CardityRuntime" where
  "reset rt = clear_event_log (reset_state (rt\<lparr>protocol := None\<rparr>))"

section \<open>Scenarios\<close>

fun call_methods ::
  "'f double_ops \<Rightarrow> CardityRuntime \<Rightarrow> (string \<times> string list) list
     \<Rightarrow> (MethodResult list \<times> CardityRuntime) outcome" where
  \<comment> \<open>A sequence of \<open>call_method\<close> invocations on one runtime, with every result.\<close>
  "call_methods D rt [] = Returns ([], rt)"
| "call_methods D rt ((m, args) # cs) =
     (case call_method D rt m args of
        Undefined_Behaviour \<Rightarrow> Undefined_Behaviour
      | Returns (res, rt1) \<Rightarrow>
          (case call_methods D rt1 cs of
             Undefined_Behaviour \<Rightarrow> Undefined_Behaviour
           | Returns (rs, rt2) \<Rightarrow> Returns (res # rs, rt2)))"

definition protocol_document :: "string \<Rightarrow> json \<Rightarrow> json \<Rightarrow> json" where
  \<comment> \<open>A deployable protocol document with the given name, state and methods.\<close>
  "protocol_document n st ms =
     JObject
       [(''cpl'', JObject [(''methods'', ms), (''owner'', JString ''doge''), (''state'', st)]),
        (''op'', JString ''deploy''),
        (''p'', JString ''cardinals''),
        (''protocol'', JString n),
        (''version'', JString ''1.0'')]"

definition S2_document :: json where
  \<comment> \<open>Scenario S2: the counter.\<close>
  "S2_document =
     protocol_document ''counter''
       (JObject [(''count'', JObject [(''default'', JString ''0''), (''type'', JString ''int'')])])
       (JObject
          [(''get_count'', JObject [(''params'', JArray []), (''returns'', JString ''state.count'')]),
           (''increment'',
              JObject [(''logic'', JString ''state.count = state.count + 1''),
                       (''params'', JArray [])])])"

definition S3_document :: json where
  \<comment> \<open>Scenario S3: the conditional with an event.\<close>
  "S3_document =
     protocol_document ''bumper''
       (JObject [(''n'', JObject [(''default'', JString ''0''), (''type'', JString ''int'')])])
       (JObject
          [(''bump'',
              JObject
                [(''logic'',
                    JString (''state.n = state.n + 1; if (state.n > 2) { emit Overflow(''
                             @ [CHR 0x22] @ ''2'' @ [CHR 0x22] @ '') }'')),
                 (''params'', JArray [])])])"

definition S6_document :: json where
  \<comment> \<open>Scenario S6 (\<open>who\<close>), with a second method \<open>peek\<close> that declares no parameter.\<close>
  "S6_document =
     protocol_document ''shadow''
       (JObject [(''x'', JObject [(''default'', JString ''store''), (''type'', JString ''string'')])])
       (JObject
          [(''peek'', JObject [(''params'', JArray []), (''returns'', JString ''x'')]),
           (''who'', JObject [(''params'', JArray [JString ''x'']), (''returns'', JString ''x'')])])"

definition S1_document :: json where
  \<comment> \<open>Scenario S1: hello set/get.\<close>
  "S1_document =
     protocol_document ''hello''
       (JObject [(''msg'', JObject [(''default'', JString []), (''type'', JString ''string'')])])
       (JObject
          [(''get_msg'', JObject [(''params'', JArray []), (''returns'', JString ''state.msg'')]),
           (''set_msg'',
              JObject [(''logic'', JString ''state.msg = params.new_msg''),
                       (''params'', JArray [JString ''new_msg''])])])"

definition rejected_document :: json where
  \<comment> \<open>A document that parses and fails validation: \<open>op\<close> is not \<open>deploy\<close>.\<close>
  "rejected_document =
     JObject
       [(''cpl'', JObject [(''owner'', JString ''doge'')]),
        (''op'', JString ''nope''),
        (''p'', JString ''cardinals''),
        (''protocol'', JString ''bad''),
        (''version'', JString ''1.0'')]"

definition rejected_document_with_method :: json where
  \<comment> \<open>A document that fails validation in the same way and declares a method \<open>leak\<close>
      that returns \<open>state.count\<close>.\<close>
  "rejected_document_with_method =
     JObject
       [(''cpl'',
           JObject
             [(''methods'',
                 JObject [(''leak'', JObject [(''params'', JArray []),
                                              (''returns'', JString ''state.count'')])]),
              (''owner'', JString ''doge'')]),
        (''op'', JString ''nope''),
        (''p'', JString ''cardinals''),
        (''protocol'', JString ''bad''),
        (''version'', JString ''1.0'')]"

definition parses_to :: "json \<Rightarrow> string \<Rightarrow> json option" where
  \<comment> \<open>A parser that reads every text as the given document.\<close>
  "parses_to doc s = Some doc"

definition parse_fails :: "string \<Rightarrow> json option" where
  \<comment> \<open>A parser that rejects every text.\<close>
  "parse_fails s = None"

definition no_hash :: "json \<Rightarrow> string" where
  "no_hash j = ''0''"

definition loaded :: "json \<Rightarrow> CardityRuntime" where
  \<comment> \<open>A fresh runtime after \<open>load_protocol_from_json\<close> of a text that parses to the
      document.\<close>
  "loaded doc = snd (load_protocol_from_json (parses_to doc) no_hash new_runtime [])"

definition ok_result :: "string \<Rightarrow> MethodResult" where
  "ok_result v = \<lparr>success = True, return_value = v, events = [], error_message = []\<rparr>"

definition integer_ops :: "int double_ops" where
  \<comment> \<open>A stand-in for the \<open>double\<close> operations, on integers, to run the model on concrete
      inputs. Every theorem below holds for all \<open>double_ops\<close>.\<close>
  "integer_ops =
     \<lparr>stod = stoi, to_string_double = to_string_int, d_zero = 0,
      d_add = (+), d_sub = (-), d_mul = (*), d_div = (div), d_neg = uminus,
      d_eq = (=), d_less = (<), d_less_eq = (\<le>)\<rparr>"

section \<open>Evaluating the numeric conversions\<close>

lemma stoi_examples:
  "stoi ''5'' = Some 5" "stoi ''0'' = Some 0" "stoi ''zero'' = None"
  "stoi ''-2147483648'' = Some (- 2147483648)" "stoi ''-1'' = Some (- 1)"
  "stoi ''-7'' = Some (- 7)" "stoi ''2'' = Some 2"
  by (simp_all add: stoi_def isdigit_def isspace_def INT_MIN_def INT_MAX_def)

lemma to_string_nat_small:
  "to_string_nat 0 = ''0''" "to_string_nat 1 = ''1''" "to_string_nat (Suc 0) = ''1''"
  by (simp_all add: to_string_nat.simps digit_char_def)

section \<open>Method calls return\<close>

text \<open>
  \<open>parse_expression\<close> builds three shapes of node only: a variable, a literal, and an
  assignment of a literal to a variable. No operator but \<open>ASSIGN\<close> is ever parsed. The
  one undefined step on the way is \<open>std::isalpha\<close> of a first byte from \<open>0x80\<close> on.
\<close>

lemma parse_expression_builds_no_remainder:
  "parse_expression e \<noteq> Returns (ExpressionNode t v MOD lft rgt)"
  by (auto simp: parse_expression_def split: option.splits outcome.splits if_splits)

lemma isalpha_outside_ascii:
  "isalpha (CHR 0xE9) = Undefined_Behaviour"
  "parse_expression [CHR 0xE9] = Undefined_Behaviour"
  "evaluate_expression D r [CHR 0xE9] = Undefined_Behaviour"
  by (simp_all add: isalpha_def parse_expression_def evaluate_expression_def find_char_def)

lemma ascii_subset: "set t \<subseteq> set s \<Longrightarrow> ascii s \<Longrightarrow> ascii t"
  by (auto simp: ascii_def list_all_iff)

lemma set_erase: "set (erase_trailing cs (erase_leading cs' s)) \<subseteq> set s"
proof
  fix x
  assume "x \<in> set (erase_trailing cs (erase_leading cs' s))"
  then have "x \<in> set (dropWhile (\<lambda>x. x \<in> set cs) (rev (dropWhile (\<lambda>x. x \<in> set cs') s)))"
    by (simp add: erase_trailing_def erase_leading_def)
  then have "x \<in> set (rev (dropWhile (\<lambda>x. x \<in> set cs') s))"
    by (rule set_dropWhileD)
  then have "x \<in> set (dropWhile (\<lambda>x. x \<in> set cs') s)"
    by simp
  then show "x \<in> set s"
    by (rule set_dropWhileD)
qed

lemma ascii_trim: "ascii s \<Longrightarrow> ascii (trim s)"
  unfolding trim_def by (rule ascii_subset[OF set_erase])

lemma ascii_substr: "ascii s \<Longrightarrow> ascii (substr s pos n)"
  by (rule ascii_subset) (auto simp: substr_def dest: in_set_takeD in_set_dropD)

lemma ascii_substr_from: "ascii s \<Longrightarrow> ascii (substr_from s pos)"
  by (rule ascii_subset) (auto simp: substr_from_def dest: in_set_dropD)

lemma ascii_getline_all:
  "ascii acc \<Longrightarrow> ascii s \<Longrightarrow> l \<in> set (getline_all d acc s) \<Longrightarrow> ascii l"
proof (induction s arbitrary: acc)
  case Nil
  then show ?case by (auto simp: ascii_def split: if_splits)
next
  case (Cons c cs)
  have cs: "ascii cs" and c: "(of_char c :: nat) < 128"
    using Cons.prems(2) by (simp_all add: ascii_def)
  show ?case
  proof (cases "c = d")
    case True
    with Cons.prems(3) have "l = rev acc \<or> l \<in> set (getline_all d [] cs)" by simp
    then show ?thesis
    proof
      assume "l = rev acc"
      with Cons.prems(1) show ?thesis by (simp add: ascii_def)
    next
      assume "l \<in> set (getline_all d [] cs)"
      with Cons.IH[of "[]"] cs show ?thesis by (simp add: ascii_def)
    qed
  next
    case False
    with Cons.prems(3) have "l \<in> set (getline_all d (c # acc) cs)" by simp
    moreover have "ascii (c # acc)" using Cons.prems(1) c by (simp add: ascii_def)
    ultimately show ?thesis using Cons.IH[of "c # acc"] cs by simp
  qed
qed

lemma isalpha_ascii: "ascii e \<Longrightarrow> e \<noteq> [] \<Longrightarrow> \<exists>b. isalpha (hd e) = Returns b"
  by (cases e) (auto simp: ascii_def isalpha_def Let_def)

lemma parse_expression_cases:
  assumes "ascii e"
  shows "(\<exists>v. parse_expression e = Returns (ExpressionNode VARIABLE v ADD None None))
   \<or> (\<exists>v. parse_expression e = Returns (ExpressionNode LITERAL v ADD None None))
   \<or> (\<exists>a b. parse_expression e =
         Returns (ExpressionNode BINARY_OP [] ASSIGN (Some (ExpressionNode VARIABLE a ADD None None))
           (Some (ExpressionNode LITERAL b ADD None None))))"
proof (cases "e = []")
  case True
  then show ?thesis by (simp add: parse_expression_def find_char_def)
next
  case False
  obtain b where "isalpha (hd e) = Returns b" using isalpha_ascii[OF assms False] by auto
  then show ?thesis by (simp add: parse_expression_def split: option.splits)
qed

lemma evaluate_expression_returns:
  "ascii e \<Longrightarrow> \<exists>x. evaluate_expression D r e = Returns x"
  using parse_expression_cases[of e]
  by (auto simp: evaluate_expression_def execute_binary_op_def)

lemma execute_assignment_returns:
  assumes "ascii a"
  shows "\<exists>x. execute_assignment D r a = Returns x"
proof (cases "find_char CHR ''='' a")
  case None
  then show ?thesis by (auto simp: execute_assignment_def)
next
  case (Some p)
  have "ascii (trim (substr_from a (p + 1)))"
    using assms by (intro ascii_trim ascii_substr_from)
  then obtain v r1 where "evaluate_expression D r (trim (substr_from a (p + 1))) = Returns (v, r1)"
    using evaluate_expression_returns[of "trim (substr_from a (p + 1))" D r] by auto
  with Some show ?thesis by (auto simp: execute_assignment_def)
qed

lemma execute_condition_returns:
  "ascii c \<Longrightarrow> \<exists>x. execute_condition D r c = Returns x"
  using evaluate_expression_returns[of c D r]
  by (auto simp: execute_condition_def)

lemma run_lines_returns:
  assumes "\<And>s l. l \<in> set ls \<Longrightarrow> \<exists>x. f s l = Returns x"
  shows "\<exists>x. run_lines f s ls = Returns x"
  using assms
proof (induction ls arbitrary: s)
  case Nil
  then show ?case by simp
next
  case (Cons l ls)
  obtain s' where "f s l = Returns s'" using Cons.prems[of l s] by auto
  moreover have "\<exists>x. run_lines f s' ls = Returns x"
    using Cons.prems by (intro Cons.IH) auto
  ultimately show ?case by simp
qed

lemma execute_body_line_returns:
  assumes "ascii raw"
  shows "\<exists>x. execute_body_line D s raw = Returns x"
proof -
  have t: "ascii (trim raw)" using assms by (rule ascii_trim)
  obtain ok r1 where "execute_assignment D (snd s) (trim raw) = Returns (ok, r1)"
    using execute_assignment_returns[OF t, of D "snd s"] by auto
  moreover obtain x where "evaluate_expression D (snd s) (trim raw) = Returns x"
    using evaluate_expression_returns[OF t, of D "snd s"] by auto
  ultimately show ?thesis by (auto simp: execute_body_line_def)
qed

lemma ascii_lines:
  assumes "ascii s" and "l \<in> set (getline_all d [] s)"
  shows "ascii l"
proof -
  have "ascii []" by (simp add: ascii_def)
  from this assms show ?thesis by (rule ascii_getline_all)
qed

lemma execute_if_returns:
  assumes "ascii line"
  shows "\<exists>x. execute_if D s line = Returns x"
proof (cases "find_char CHR ''{'' line")
  case None
  then show ?thesis by (auto simp: execute_if_def)
next
  case ob: (Some open_brace)
  show ?thesis
  proof (cases "find_last_of CHR ''}'' line")
    case None
    with ob show ?thesis by (auto simp: execute_if_def)
  next
    case cb: (Some close_brace)
    define cond where
      "cond = erase_trailing (blanks @ '')'')
                (erase_leading (blanks @ ''('') (substr line 2 (open_brace - 2)))"
    define body where
      "body = (if open_brace < close_brace
               then substr line (open_brace + 1) (close_brace - open_brace - 1)
               else substr_from line (open_brace + 1))"
    have "ascii (substr line 2 (open_brace - 2))"
      using assms by (rule ascii_substr)
    then have "ascii cond"
      unfolding cond_def by (rule ascii_subset[OF set_erase])
    then obtain c r1 where c: "execute_condition D (snd s) cond = Returns (c, r1)"
      using execute_condition_returns[of cond D "snd s"] by auto
    have ab: "ascii body"
      unfolding body_def using assms by (simp add: ascii_substr ascii_substr_from)
    have b: "\<exists>x. run_lines (execute_body_line D) (fst s, r1) (getline_all CHR '';'' [] body)
               = Returns x"
    proof (rule run_lines_returns)
      fix s0 l
      assume "l \<in> set (getline_all CHR '';'' [] body)"
      with ab have "ascii l" by (rule ascii_lines)
      then show "\<exists>x. execute_body_line D s0 l = Returns x"
        by (rule execute_body_line_returns)
    qed
    have e: "execute_if D s line =
        (case execute_condition D (snd s) cond of
           Undefined_Behaviour \<Rightarrow> Undefined_Behaviour
         | Returns (c, r1) \<Rightarrow>
             if c then run_lines (execute_body_line D) (fst s, r1) (getline_all CHR '';'' [] body)
             else Returns (fst s, r1))"
      unfolding execute_if_def cond_def body_def using ob cb by simp
    show ?thesis
    proof (cases c)
      case True
      with c b show ?thesis unfolding e by simp
    next
      case False
      with c show ?thesis unfolding e by simp
    qed
  qed
qed

lemma execute_line_returns:
  assumes "ascii raw"
  shows "\<exists>x. execute_line D s raw = Returns x"
proof -
  have t: "ascii (trim raw)" using assms by (rule ascii_trim)
  obtain ok r1 where "execute_assignment D (snd s) (trim raw) = Returns (ok, r1)"
    using execute_assignment_returns[OF t, of D "snd s"] by auto
  moreover obtain x where "evaluate_expression D (snd s) (trim raw) = Returns x"
    using evaluate_expression_returns[OF t, of D "snd s"] by auto
  ultimately show ?thesis
    using execute_if_returns[OF t, of D s] by (auto simp: execute_line_def)
qed

lemma execute_method_logic_returns:
  assumes "ascii logic"
  shows "\<exists>x. execute_method_logic D r logic args = Returns x"
  unfolding execute_method_logic_def
proof (rule run_lines_returns)
  fix s0 l
  assume "l \<in> set (getline_all CHR '';'' [] logic)"
  with assms have "ascii l" by (rule ascii_lines)
  then show "\<exists>x. execute_line D s0 l = Returns x"
    by (rule execute_line_returns)
qed

lemma call_method_returns:
  assumes "\<And>pr mth. protocol rt = Some pr \<Longrightarrow> map_find m (cpl_methods (car_cpl pr)) = Some mth
             \<Longrightarrow> ascii (method_logic mth) \<and> ascii (method_returns mth)"
  shows "\<exists>res rt'. call_method D rt m args = Returns (res, rt')"
proof (cases "protocol rt")
  case None
  then show ?thesis by (simp add: call_method_def)
next
  case (Some pr)
  show ?thesis
  proof (cases "map_find m (cpl_methods (car_cpl pr))")
    case None
    with Some show ?thesis by (simp add: call_method_def)
  next
    case mt: (Some mth)
    have al: "ascii (method_logic mth)" and ar: "ascii (method_returns mth)"
      using assms[OF Some mt] by simp_all
    obtain v r1 where v: "(if method_logic mth \<noteq> []
          then execute_method_logic D (bind_parameters (resolver rt) (method_params mth) args)
                 (method_logic mth) args
          else Returns ([], bind_parameters (resolver rt) (method_params mth) args))
        = Returns (v, r1)"
      using execute_method_logic_returns[OF al, of D
              "bind_parameters (resolver rt) (method_params mth) args" args]
      by (cases "method_logic mth = []") auto
    obtain w r2 where w: "(if method_returns mth \<noteq> []
          then process_return_value D r1 m (method_returns mth)
          else Returns (v, r1)) = Returns (w, r2)"
      using evaluate_expression_returns[OF ar, of D r1]
      by (cases "method_returns mth = []") (auto simp: process_return_value_def)
    from Some mt v w show ?thesis by (simp add: call_method_def)
  qed
qed

text \<open>
  A call of a method whose body and return expression are ASCII text does not run into
  undefined behaviour, whatever the arguments are: the remainder operator is out of the
  parser's reach.
\<close>

theorem call_method_never_aborts:
  assumes "\<And>pr mth. protocol rt = Some pr \<Longrightarrow> map_find m (cpl_methods (car_cpl pr)) = Some mth
             \<Longrightarrow> ascii (method_logic mth) \<and> ascii (method_returns mth)"
  shows "call_method D rt m args \<noteq> Undefined_Behaviour"
proof -
  have "\<exists>res rt'. call_method D rt m args = Returns (res, rt')"
    using assms by (rule call_method_returns)
  then show ?thesis by auto
qed

text \<open>
  \<open>call_method\<close> never fills the \<open>events\<close> of its result and never touches the event
  log: both loops of \<open>execute_method_logic\<close> skip a line that starts with \<open>emit\<close>.
\<close>

theorem call_method_emits_nothing:
  assumes "call_method D rt m args = Returns (res, rt')"
  shows "events res = [] \<and> event_log rt' = event_log rt"
  using assms
  by (auto simp: call_method_def MethodResult_default_def
           split: option.splits if_splits outcome.splits prod.splits)

theorem call_method_emits_nothing_witness:
  "\<exists>res rt'. call_method integer_ops (loaded S3_document) ''bump'' [] = Returns (res, rt')
      \<and> events res = [] \<and> event_log rt' = event_log (loaded S3_document)"
proof -
  let ?pr = "the (protocol (loaded S3_document))"
  let ?mth = "the (map_find ''bump'' (cpl_methods (car_cpl ?pr)))"
  have h1: "protocol (loaded S3_document) = Some ?pr" by code_simp
  have h2: "map_find ''bump'' (cpl_methods (car_cpl ?pr)) = Some ?mth" by code_simp
  have h3: "ascii (method_logic ?mth) \<and> ascii (method_returns ?mth)" by code_simp
  have "\<exists>res rt'. call_method integer_ops (loaded S3_document) ''bump'' [] = Returns (res, rt')"
    using h1 h2 h3 by (intro call_method_returns) auto
  then obtain res rt' where
    c: "call_method integer_ops (loaded S3_document) ''bump'' [] = Returns (res, rt')"
    by blast
  from call_method_emits_nothing[OF c] c show ?thesis by blast
qed

section \<open>Arity errors\<close>

text \<open>
  Claim C4. With a protocol loaded, a call of a method that declares \<open>k\<close> parameters with
  a different number \<open>n\<close> of arguments returns \<open>success = false\<close> and the message
  \<open>Parameter count mismatch. Expected k, got n\<close>; the runtime it leaves is the runtime it
  found: state store, parameter frame and event log are as before the call.
\<close>

theorem call_method_arity_error:
  assumes "protocol rt = Some pr"
    and "map_find m (cpl_methods (car_cpl pr)) = Some method"
    and "length args \<noteq> length (method_params method)"
  shows "call_method D rt m args =
     Returns (\<lparr>success = False, return_value = [], events = [],
               error_message = ''Parameter count mismatch. Expected ''
                  @ to_string_nat (length (method_params method))
                  @ '', got '' @ to_string_nat (length args)\<rparr>, rt)"
  using assms by (simp add: call_method_def MethodResult_default_def)

text \<open>Scenario S4: \<open>set_msg\<close> of S1 called with no argument.\<close>

theorem call_method_arity_error_witness:
  "call_method integer_ops (loaded S1_document) ''set_msg'' [] =
     Returns (\<lparr>success = False, return_value = [], events = [],
               error_message = ''Parameter count mismatch. Expected 1, got 0''\<rparr>,
              loaded S1_document)
   \<and> get_state (loaded S1_document) ''msg'' ''?'' = []"
proof -
  let ?pr = "the (protocol (loaded S1_document))"
  let ?mth = "the (map_find ''set_msg'' (cpl_methods (car_cpl ?pr)))"
  have h1: "protocol (loaded S1_document) = Some ?pr" by code_simp
  have h2: "map_find ''set_msg'' (cpl_methods (car_cpl ?pr)) = Some ?mth" by code_simp
  have h3: "length ([] :: string list) \<noteq> length (method_params ?mth)" by code_simp
  have h4: "length (method_params ?mth) = 1" by code_simp
  have h5: "get_state (loaded S1_document) ''msg'' ''?'' = []" by code_simp
  show ?thesis
    using call_method_arity_error[OF h1 h2 h3, of integer_ops] h5
    by (simp add: h4 to_string_nat_small)
qed

section \<open>The remainder operator\<close>

text \<open>
  Claim C5. The claim has \<open>%\<close> total on all pairs of operand strings. In the code
  \<open>execute_binary_op\<close> computes \<open>string_to_int(left) % string_to_int(right)\<close> with no
  guard: with a right operand that parses to 0 (\<open>"0"\<close>, or any text \<open>std::stoi\<close>
  rejects), and with \<open>INT_MIN % -1\<close>, the remainder is undefined behaviour. The node is
  reached through the public \<open>evaluate_node\<close>. The division next to it has the guard
  (\<open>division_by_zero_is_guarded\<close>), and \<open>call_method\<close> itself cannot reach the operator
  (\<open>parse_expression_builds_no_remainder\<close>).
\<close>

theorem modulo_by_zero_is_undefined:
  "execute_binary_op D r MOD ''5'' ''0'' = Undefined_Behaviour
   \<and> evaluate_node D r (ExpressionNode BINARY_OP [] MOD
        (Some (ExpressionNode LITERAL ''5'' ADD None None))
        (Some (ExpressionNode LITERAL ''0'' ADD None None))) = Undefined_Behaviour
   \<and> execute_binary_op D r MOD ''5'' ''zero'' = Undefined_Behaviour
   \<and> execute_binary_op D r MOD ''-2147483648'' ''-1'' = Undefined_Behaviour"
  by (simp add: execute_binary_op_def string_to_int_def stoi_examples parse_literal_def INT_MIN_def)

lemma division_by_zero_is_guarded:
  "d_eq D (string_to_float D rt) (d_zero D) \<Longrightarrow> execute_binary_op D r DIV l rt = Returns (''0'', r)"
  by (simp add: execute_binary_op_def)

section \<open>Name resolution\<close>

lemma map_find_map_set:
  "map_find k' (map_set k v m) = (if k' = k then Some v else map_find k' m)"
  by (induction m) (auto simp: map_find_def)

lemma get_string_StateManager_set:
  "get_string (StateManager_set st k v) k' d = (if k' = k then v else get_string st k' d)"
  by (simp add: get_string_def StateManager_set_def set_value_def get_value_def has_key_def
        map_find_map_set from_string_def)

lemma S6_who:
  "(case call_method D (loaded S6_document) ''who'' [''arg''] of
      Returns (res, rt') \<Rightarrow> res = ok_result ''arg'' \<and> get_state rt' ''x'' ''?'' = ''store''
    | Undefined_Behaviour \<Rightarrow> False)"
  by code_simp

text \<open>
  Claim C6. For a bare name \<open>X\<close> (one with neither the \<open>params.\<close> nor the \<open>state.\<close>
  prefix): a read of \<open>X\<close> returns the parameter frame's entry when there is one and the
  store's value otherwise, which is the empty string for an absent key; a write to
  \<open>state.X\<close> goes to the store and leaves the frame alone; the bare read after it
  returns the frame's entry when there is one and the written value otherwise, so the
  write shows in the read for every written value exactly when no parameter \<open>X\<close> is in
  the frame. In scenario S6, \<open>who("arg")\<close> returns \<open>arg\<close> and the store keeps \<open>store\<close>
  under \<open>x\<close>.
\<close>

theorem resolver_namespacing:
  assumes "substr X 0 7 \<noteq> ''params.''" and "substr X 0 6 \<noteq> ''state.''"
  shows "resolve_variable r X =
           (case params r X of Some p \<Rightarrow> p | None \<Rightarrow> get_string (state_manager r) X [])
       \<and> (\<not> has_key (state_manager r) X \<longrightarrow> get_string (state_manager r) X [] = [])
       \<and> set_variable r (''state.'' @ X) v =
            r\<lparr>state_manager := StateManager_set (state_manager r) X v\<rparr>
       \<and> resolve_variable (set_variable r (''state.'' @ X) v) X =
            (case params r X of Some p \<Rightarrow> p | None \<Rightarrow> v)
       \<and> ((\<forall>w. resolve_variable (set_variable r (''state.'' @ X) w) X = w) \<longleftrightarrow> params r X = None)
       \<and> (case call_method D (loaded S6_document) ''who'' [''arg''] of
            Returns (res, rt') \<Rightarrow> res = ok_result ''arg'' \<and> get_state rt' ''x'' ''?'' = ''store''
          | Undefined_Behaviour \<Rightarrow> False)"
proof -
  have rd: "resolve_variable r X =
      (case params r X of Some p \<Rightarrow> p | None \<Rightarrow> get_string (state_manager r) X [])"
    using assms by (simp add: resolve_variable_def)
  have ab: "\<not> has_key (state_manager r) X \<longrightarrow> get_string (state_manager r) X [] = []"
    by (simp add: get_string_def get_value_def has_key_def StateValue_default_def)
  have wr: "\<And>w. set_variable r (''state.'' @ X) w =
      r\<lparr>state_manager := StateManager_set (state_manager r) X w\<rparr>"
    by (simp add: set_variable_def substr_def substr_from_def)
  have wrd: "\<And>w. resolve_variable (set_variable r (''state.'' @ X) w) X =
      (case params r X of Some p \<Rightarrow> p | None \<Rightarrow> w)"
    using assms unfolding wr
    by (simp add: resolve_variable_def get_string_StateManager_set split: option.splits)
  have obs: "(\<forall>w. resolve_variable (set_variable r (''state.'' @ X) w) X = w) \<longleftrightarrow> params r X = None"
  proof
    assume a: "\<forall>w. resolve_variable (set_variable r (''state.'' @ X) w) X = w"
    show "params r X = None"
    proof (cases "params r X")
      case None
      then show ?thesis .
    next
      case (Some p)
      from a have "resolve_variable (set_variable r (''state.'' @ X) (CHR ''a'' # p)) X = CHR ''a'' # p"
        by blast
      with Some show ?thesis unfolding wrd by simp
    qed
  next
    assume "params r X = None"
    then show "\<forall>w. resolve_variable (set_variable r (''state.'' @ X) w) X = w"
      unfolding wrd by simp
  qed
  from rd ab wr[of v] wrd[of v] obs S6_who[of D] show ?thesis by blast
qed

text \<open>
  The resolver of the S6 runtime, before and after a parameter \<open>x\<close> is bound: the write
  to \<open>state.x\<close> shows in the first and is shadowed in the second.
\<close>

theorem resolver_namespacing_witness:
  "resolve_variable (resolver (loaded S6_document)) ''x'' = ''store''
   \<and> resolve_variable (set_variable (resolver (loaded S6_document)) ''state.x'' ''new'') ''x'' = ''new''
   \<and> resolve_variable
        (set_variable (set_parameter (resolver (loaded S6_document)) ''x'' ''arg'') ''state.x'' ''new'')
        ''x'' = ''arg''"
proof -
  let ?r = "resolver (loaded S6_document)"
  let ?q = "set_parameter ?r ''x'' ''arg''"
  have b1: "substr ''x'' 0 7 \<noteq> ''params.''" and b2: "substr ''x'' 0 6 \<noteq> ''state.''"
    by (simp_all add: substr_def)
  have p0: "params ?r ''x'' = None" by code_simp
  have g0: "get_string (state_manager ?r) ''x'' [] = ''store''" by code_simp
  have p1: "params ?q ''x'' = Some ''arg''" by (simp add: set_parameter_def)
  note R = resolver_namespacing[OF b1 b2, of ?r "''new''" integer_ops]
  note Q = resolver_namespacing[OF b1 b2, of ?q "''new''" integer_ops]
  have A: "resolve_variable ?r ''x'' = ''store''"
    using R[THEN conjunct1] by (simp add: p0 g0)
  have B: "resolve_variable (set_variable ?r ''state.x'' ''new'') ''x'' = ''new''"
    using R[THEN conjunct2, THEN conjunct2, THEN conjunct2, THEN conjunct1] by (simp add: p0)
  have C: "resolve_variable (set_variable ?q ''state.x'' ''new'') ''x'' = ''arg''"
    using Q[THEN conjunct2, THEN conjunct2, THEN conjunct2, THEN conjunct1] by (simp add: p1)
  from A B C show ?thesis by blast
qed


section \<open>Arithmetic in method bodies\<close>

text \<open>
  Claim C1. The claim has \<open>get_count\<close> return 3 after three calls of \<open>increment\<close>. In the
  code the right-hand side \<open>state.count + 1\<close> is never split at \<open>+\<close>:
  \<open>parse_expression\<close> sees a dot and makes the whole text one variable reference,
  \<open>parse_variable\<close> strips \<open>state.\<close> and looks the key \<open>count + 1\<close> up, which is absent.
  Every \<open>increment\<close> stores the empty string, and \<open>get_count\<close> returns it. The addition
  of \<open>execute_binary_op\<close> is never reached.
\<close>

theorem S2_get_count_after_three_increments:
  "fst (load_protocol_from_json (parses_to S2_document) calculate_hash new_runtime json_str)
   \<and> get_state (loaded S2_document) ''count'' ''?'' = ''0''
   \<and> (case call_methods D
              (snd (load_protocol_from_json (parses_to S2_document) calculate_hash new_runtime json_str))
              [(''increment'', []), (''increment'', []), (''increment'', []), (''get_count'', [])] of
         Returns (rs, rt') \<Rightarrow>
           rs = [ok_result [], ok_result [], ok_result [], ok_result []]
           \<and> get_state rt' ''count'' ''?'' = []
       | Undefined_Behaviour \<Rightarrow> False)
   \<and> (case call_method D (loaded S2_document) ''increment'' [] of
         Returns (res, rt') \<Rightarrow> res = ok_result [] \<and> get_state rt' ''count'' ''?'' = []
       | Undefined_Behaviour \<Rightarrow> False)"
  by code_simp

section \<open>Events\<close>

text \<open>
  Claim C2. The claim has every executed \<open>emit\<close> append to the event log and to the
  result's events. In the code both loops of \<open>execute_method_logic\<close> skip a line that
  starts with \<open>emit\<close>, and \<open>call_method\<close> never writes \<open>result.events\<close>
  (\<open>call_method_emits_nothing\<close>). In scenario S3 the three calls of \<open>bump\<close> succeed with
  no event in any result and an empty event log; the condition \<open>state.n > 2\<close> is read as
  one variable name and is false, and \<open>n\<close> holds the empty string. A body that is a
  single \<open>emit\<close> emits nothing either.
\<close>

theorem S3_three_bumps_emit_nothing:
  "(case call_methods D (loaded S3_document) [(''bump'', []), (''bump'', []), (''bump'', [])] of
      Returns (rs, rt') \<Rightarrow>
        map success rs = [True, True, True]
        \<and> map events rs = [[], [], []]
        \<and> get_event_log rt' = []
        \<and> get_state rt' ''n'' ''?'' = []
    | Undefined_Behaviour \<Rightarrow> False)
   \<and> (case execute_method_logic D (resolver (loaded S3_document))
              (''emit Overflow('' @ [CHR 0x22] @ ''2'' @ [CHR 0x22] @ '')'') [] of
         Returns (v, r) \<Rightarrow> v = [] \<and> state_manager r = state_manager (resolver (loaded S3_document))
       | Undefined_Behaviour \<Rightarrow> False)"
  by code_simp

section \<open>The parameter frame across calls\<close>

text \<open>
  Claim C7. The claim has the frame cleared or replaced before the next call. In the code
  \<open>call_method\<close> binds with \<open>set_parameter\<close>, which adds to the resolver's map or
  overwrites an entry; nothing clears the map and \<open>set_parameters\<close> is never called. In
  the S6 protocol, \<open>peek\<close> declares no parameter and returns \<open>x\<close>: on a fresh runtime it
  returns the store's \<open>store\<close>; after \<open>who("arg")\<close> it returns \<open>arg\<close>, the value bound by
  the earlier call, which is still in the frame.
\<close>

theorem S6_parameter_survives_the_call:
  "(case call_methods D (loaded S6_document) [(''who'', [''arg'']), (''peek'', [])] of
      Returns (rs, rt') \<Rightarrow>
        rs = [ok_result ''arg'', ok_result ''arg'']
        \<and> params (resolver rt') ''x'' = Some ''arg''
        \<and> get_state rt' ''x'' ''?'' = ''store''
    | Undefined_Behaviour \<Rightarrow> False)
   \<and> (case call_method D (loaded S6_document) ''peek'' [] of
         Returns (res, rt') \<Rightarrow> res = ok_result ''store''
       | Undefined_Behaviour \<Rightarrow> False)"
  by code_simp

section \<open>Snapshots of the runtime\<close>

text \<open>
  A store built by the runtime keeps its keys in strictly increasing order, as the
  \<open>std::map\<close> it models does: \<open>map_set\<close> preserves the order.
\<close>

lemma map_set_keys: "fst ` set (map_set k v m) = insert k (fst ` set m)"
  by (induction m) (auto simp: rev_image_eqI split: if_splits)

lemma map_set_sorted:
  "sorted_wrt (<) (map fst m) \<Longrightarrow> sorted_wrt (<) (map fst (map_set k v m))"
proof (induction m)
  case Nil
  then show ?case by simp
next
  case (Cons x m)
  obtain k' v' where x: "x = (k', v')" by (cases x)
  show ?case
  proof (cases "k = k'")
    case True
    with Cons.prems x show ?thesis by simp
  next
    case False
    show ?thesis
    proof (cases "k < k'")
      case True
      with Cons.prems x False show ?thesis by (auto intro: less_trans)
    next
      case nl: False
      with False have "k' < k" by simp
      with Cons x False nl show ?thesis
        using map_set_keys[of k v m] by auto
    qed
  qed
qed


text \<open>
  On such a store the loops that copy a \<open>std::map\<close> into another one, or into a JSON
  object, are maps over the list.
\<close>

lemma map_set_append:
  "\<forall>x \<in> set m. fst x < k \<Longrightarrow> map_set k v m = m @ [(k, v)]"
  by (induction m) auto

lemma fold_map_set_sorted:
  assumes "sorted_wrt (<) (map fst xs)" and "\<forall>a \<in> set acc. \<forall>x \<in> set xs. fst a < fst x"
  shows "fold (\<lambda>(k, v) acc. map_set k (g v) acc) xs acc = acc @ map (\<lambda>(k, v). (k, g v)) xs"
  using assms
proof (induction xs arbitrary: acc)
  case Nil
  then show ?case by simp
next
  case (Cons x xs)
  obtain k v where x: "x = (k, v)" by (cases x)
  have 1: "map_set k (g v) acc = acc @ [(k, g v)]"
    using Cons.prems(2) x by (intro map_set_append) auto
  have 2: "\<forall>a \<in> set (acc @ [(k, g v)]). \<forall>y \<in> set xs. fst a < fst y"
    using Cons.prems x by auto
  have 3: "sorted_wrt (<) (map fst xs)" using Cons.prems(1) by simp
  show ?case using Cons.IH[OF 3 2] 1 x by simp
qed

lemma get_all_strings_sorted:
  "sorted_wrt (<) (map fst st) \<Longrightarrow> get_all_strings st = map (\<lambda>(k, v). (k, sv_value v)) st"
  using fold_map_set_sorted[of st "[]" sv_value] by (simp add: get_all_strings_def)

lemma get_all_state_sorted:
  assumes "sorted_wrt (<) (map fst (state_manager (resolver rt)))"
  shows "get_all_state rt = JObject (map (\<lambda>(k, v). (k, JString (sv_value v))) (state_manager (resolver rt)))"
proof -
  let ?st = "state_manager (resolver rt)"
  have s: "sorted_wrt (<) (map fst (map (\<lambda>(k, v). (k, sv_value v)) ?st))"
    using assms by (simp add: comp_def case_prod_unfold)
  show ?thesis
    using fold_map_set_sorted[OF s, of "[]" JString] assms
    by (simp add: get_all_state_def get_all_strings_sorted comp_def case_prod_unfold)
qed

lemma restore_state_items_strings:
  "restore_state_items t (map (\<lambda>(k, v). (k, JString (sv_value v))) st)
     = (True, fold (\<lambda>(k, v) t'. StateManager_set t' k (sv_value v)) st t)"
  by (induction st arbitrary: t) (auto simp: json_get_string_def)

lemma map_find_fold_set:
  assumes "distinct (map fst st)"
  shows "map_find k (fold (\<lambda>(k, v) t'. StateManager_set t' k (sv_value v)) st t)
     = (case map_find k st of Some v \<Rightarrow> Some (from_string (sv_value v)) | None \<Rightarrow> map_find k t)"
  using assms
proof (induction st arbitrary: t)
  case Nil
  then show ?case by (simp add: map_find_def)
next
  case (Cons x st)
  obtain k0 v0 where x: "x = (k0, v0)" by (cases x)
  have d: "distinct (map fst st)" and n: "map_find k0 st = None"
    using Cons.prems x by (auto simp: map_find_def map_of_eq_None_iff)
  have c: "map_find k (x # st) = (if k = k0 then Some v0 else map_find k st)"
    using x by (simp add: map_find_def)
  have s: "map_find k (StateManager_set t k0 (sv_value v0))
         = (if k = k0 then Some (from_string (sv_value v0)) else map_find k t)"
    by (simp add: StateManager_set_def set_value_def map_find_map_set)
  show ?case
  proof (cases "k = k0")
    case True
    with Cons.IH[OF d, of "StateManager_set t k0 (sv_value v0)"] x n c s show ?thesis
      by (simp split: option.splits)
  next
    case False
    with Cons.IH[OF d, of "StateManager_set t k0 (sv_value v0)"] x c s show ?thesis
      by (simp split: option.splits)
  qed
qed

text \<open>
  What \<open>CardityRuntime::restore_from_snapshot\<close> does with a snapshot of a runtime \<open>src\<close>,
  on any runtime \<open>tgt\<close>: it succeeds, the event log becomes the one of \<open>src\<close>, a key of
  \<open>src\<close> reads as in \<open>src\<close>, and any other key reads as it did in \<open>tgt\<close> before. The
  state of \<open>src\<close> is reproduced when \<open>tgt\<close> has no key outside those of \<open>src\<close>.
\<close>

theorem restore_from_snapshot_merges:
  assumes "sorted_wrt (<) (map fst (state_manager (resolver src)))"
  shows "fst (restore_from_snapshot tgt (create_snapshot now src bh))
     \<and> event_log (snd (restore_from_snapshot tgt (create_snapshot now src bh))) = event_log src
     \<and> get_state (snd (restore_from_snapshot tgt (create_snapshot now src bh))) k d
         = (if has_key (state_manager (resolver src)) k then get_state src k d else get_state tgt k d)"
proof -
  let ?st = "state_manager (resolver src)"
  let ?F = "fold (\<lambda>(k, v) t'. StateManager_set t' k (sv_value v)) ?st (state_manager (resolver tgt))"
  have dist: "distinct (map fst ?st)"
    using assms strict_sorted_iff by blast
  have r: "restore_from_snapshot tgt (create_snapshot now src bh)
      = (True, tgt\<lparr>resolver := (resolver tgt)\<lparr>state_manager := ?F\<rparr>, event_log := event_log src\<rparr>)"
    by (simp add: restore_from_snapshot_def create_snapshot_def get_all_state_sorted[OF assms]
          json_items_def restore_state_items_strings)
  have g: "get_string ?F k d
         = (if has_key ?st k then get_string ?st k d else get_string (state_manager (resolver tgt)) k d)"
    by (auto simp: get_string_def get_value_def has_key_def map_find_fold_set[OF dist] from_string_def
             split: option.splits)
  show ?thesis by (simp add: r get_state_def g)
qed


theorem restore_from_snapshot_merges_witness:
  "fst (restore_from_snapshot (snd (set_state (loaded S2_document) ''count'' ''9''))
          (create_snapshot [] (loaded S2_document) []))
   \<and> get_state
        (snd (restore_from_snapshot (snd (set_state (loaded S2_document) ''count'' ''9''))
                (create_snapshot [] (loaded S2_document) [])))
        ''count'' ''?'' = ''0''"
proof -
  have s: "sorted_wrt (<) (map fst (state_manager (resolver (loaded S2_document))))" by code_simp
  have h: "has_key (state_manager (resolver (loaded S2_document))) ''count''" by code_simp
  have g: "get_state (loaded S2_document) ''count'' ''?'' = ''0''" by code_simp
  show ?thesis
    using restore_from_snapshot_merges[OF s,
            of "snd (set_state (loaded S2_document) ''count'' ''9'')" "[]" "[]" "''count''" "''?''"]
    by (simp add: h g)
qed

text \<open>
  Claim C3. The claim has \<open>restore_from_snapshot\<close> of a snapshot reproduce the state that
  was serialized. In the code \<open>CardityRuntime::restore_from_snapshot\<close> sets every key of
  the snapshot and never clears the store, so a key written after the snapshot was taken
  survives the restore. Here the snapshot is taken of the freshly loaded S2 runtime
  (\<open>count\<close> is \<open>0\<close>), then \<open>set_state("extra", "1")\<close>, then the restore: it succeeds, and
  the store holds \<open>extra\<close>, which the serialized state did not.
\<close>

theorem restore_keeps_keys_set_after_the_snapshot:
  "(let rt0 = loaded S2_document;
        snap = create_snapshot now rt0 block_height;
        rt1 = snd (set_state rt0 ''extra'' ''1'');
        r = restore_from_snapshot rt1 snap
    in fst r
       \<and> get_all_state rt0 = JObject [(''count'', JString ''0'')]
       \<and> get_all_state (snd r) = JObject [(''count'', JString ''0''), (''extra'', JString ''1'')]
       \<and> get_state rt0 ''extra'' ''absent'' = ''absent''
       \<and> get_state (snd r) ''extra'' ''absent'' = ''1''
       \<and> event_log (snd r) = event_log rt0)"
  by code_simp

section \<open>Restoring the store from a malformed snapshot\<close>

lemma restore_without_state_is_refused:
  "\<not> json_contains snapshot ''state''
     \<Longrightarrow> MemoryStateStore_restore_from_snapshot st snapshot = Returns (False, st)"
  by (simp add: MemoryStateStore_restore_from_snapshot_def)

text \<open>
  Claim C8. The claim has a malformed snapshot leave the store as it was. In the code that
  holds when the top-level \<open>state\<close> is missing (\<open>restore_without_state_is_refused\<close>);
  for a malformed entry \<open>state.clear()\<close> has already run when the exception is thrown.
  A store that holds \<open>a\<close>, restored from a snapshot whose entry \<open>b\<close> has a string for
  \<open>type\<close>: the call returns false and the store is empty. With a well-formed entry
  before a malformed one, the call returns false and the store holds the well-formed entry
  only. With an entry that lacks \<open>value\<close>, the \<open>operator[]\<close> of a \<open>const json\<close> is
  undefined.
\<close>

theorem restore_malformed_entry_clears_the_store:
  "MemoryStateStore_restore_from_snapshot [(''a'', from_string ''1'')]
      (JObject [(''state'',
         JObject [(''b'', JObject [(''type'', JString ''int''), (''value'', JString ''v'')])])])
    = Returns (False, [])
   \<and> MemoryStateStore_restore_from_snapshot [(''a'', from_string ''1'')]
       (JObject [(''state'',
          JObject [(''b'', JObject [(''type'', JInt 0), (''value'', JString ''v'')]),
                   (''c'', JObject [(''type'', JInt 0), (''value'', JInt 7)])])])
     = Returns (False, [(''b'', from_string ''v'')])
   \<and> MemoryStateStore_restore_from_snapshot [(''a'', from_string ''1'')]
       (JObject [(''state'', JObject [(''b'', JObject [(''type'', JInt 0)])])])
     = Undefined_Behaviour"
  by code_simp

section \<open>The derived ABI\<close>

lemma load_from_json_abi:
  "load_from_json parse h s = Some pr
     \<Longrightarrow> car_abi pr = generate_abi (car_cpl pr) (car_protocol pr) (car_version pr)"
  by (auto simp: load_from_json_def split: Option.bind_splits)

lemma load_from_json_hash_only:
  "map_option (\<lambda>pr. pr\<lparr>car_hash := []\<rparr>) (load_from_json parse h1 s)
     = map_option (\<lambda>pr. pr\<lparr>car_hash := []\<rparr>) (load_from_json parse h2 s)"
  by (auto simp: load_from_json_def split: Option.bind_splits)

lemma load_from_json_abi_hash:
  "map_option car_abi (load_from_json parse h1 s) = map_option car_abi (load_from_json parse h2 s)"
proof -
  have "map_option car_abi (load_from_json parse h s)
      = map_option car_abi (map_option (\<lambda>pr. pr\<lparr>car_hash := []\<rparr>) (load_from_json parse h s))" for h
    by (simp add: option.map_comp comp_def)
  then show ?thesis using load_from_json_hash_only[of parse h1 s h2] by simp
qed

lemma protocol_reset_state: "protocol (reset_state rt) = protocol rt"
  by (simp add: reset_state_def split: option.splits)

lemma protocol_after_load:
  "protocol (snd (load_protocol_from_json parse h rt s)) = load_from_json parse h s"
  by (simp add: load_protocol_from_json_def Let_def protocol_reset_state split: option.splits)

lemma get_abi_after_load:
  "get_abi (snd (load_protocol_from_json parse h rt s))
     = (case load_from_json parse h s of None \<Rightarrow> JObject [] | Some pr \<Rightarrow> car_abi pr)"
  by (simp add: get_abi_def protocol_after_load)

text \<open>
  Claim C9. Loading the same document text twice gives the same ABI, whatever the runtime
  held before each load and whatever the hash function is, so any serializer \<open>dump\<close>
  prints the same bytes. The ABI of a loaded protocol is \<open>generate_abi\<close> of its \<open>cpl\<close>,
  its \<open>protocol\<close> and its \<open>version\<close>: two loaded protocols that agree on the three have
  the same ABI.
\<close>

theorem abi_is_deterministic:
  "map_option (\<lambda>pr. dump (car_abi pr)) (load_from_json parse h1 s)
     = map_option (\<lambda>pr. dump (car_abi pr)) (load_from_json parse h2 s)
   \<and> dump (get_abi (snd (load_protocol_from_json parse h1 rt1 s)))
     = dump (get_abi (snd (load_protocol_from_json parse h2 rt2 s)))
   \<and> (load_from_json parse h1 s = Some pr \<longrightarrow>
        car_abi pr = generate_abi (car_cpl pr) (car_protocol pr) (car_version pr)
        \<and> get_abi (snd (load_protocol_from_json parse h1 rt1 s))
            = generate_abi (car_cpl pr) (car_protocol pr) (car_version pr))
   \<and> (load_from_json parse h1 s = Some pr \<and> load_from_json parse' h2 s' = Some pr'
        \<and> car_cpl pr = car_cpl pr' \<and> car_protocol pr = car_protocol pr'
        \<and> car_version pr = car_version pr' \<longrightarrow> car_abi pr = car_abi pr')"
proof -
  have "map_option (\<lambda>pr. dump (car_abi pr)) (load_from_json parse h1 s)
      = map_option (\<lambda>pr. dump (car_abi pr)) (load_from_json parse h2 s)"
    using load_from_json_abi_hash[of parse h1 s h2]
    by (cases "load_from_json parse h1 s"; cases "load_from_json parse h2 s") simp_all
  moreover have "get_abi (snd (load_protocol_from_json parse h1 rt1 s))
      = get_abi (snd (load_protocol_from_json parse h2 rt2 s))"
    using load_from_json_abi_hash[of parse h1 s h2]
    by (cases "load_from_json parse h1 s"; cases "load_from_json parse h2 s")
       (simp_all add: get_abi_after_load)
  moreover have "load_from_json parse h1 s = Some pr \<longrightarrow>
        car_abi pr = generate_abi (car_cpl pr) (car_protocol pr) (car_version pr)
        \<and> get_abi (snd (load_protocol_from_json parse h1 rt1 s))
            = generate_abi (car_cpl pr) (car_protocol pr) (car_version pr)"
    using load_from_json_abi[of parse h1 s pr] by (simp add: get_abi_after_load)
  moreover have "load_from_json parse h1 s = Some pr \<and> load_from_json parse' h2 s' = Some pr'
        \<and> car_cpl pr = car_cpl pr' \<and> car_protocol pr = car_protocol pr'
        \<and> car_version pr = car_version pr' \<longrightarrow> car_abi pr = car_abi pr'"
    using load_from_json_abi[of parse h1 s pr] load_from_json_abi[of parse' h2 s' pr'] by simp
  ultimately show ?thesis by simp
qed

text \<open>
  The S2 document loaded into a fresh runtime and into a runtime that holds the S3
  protocol.
\<close>

theorem abi_is_deterministic_witness:
  "get_abi (loaded S2_document)
     = generate_abi (car_cpl (the (load_from_json (parses_to S2_document) no_hash []))) ''counter'' ''1.0''
   \<and> get_abi (loaded S2_document)
     = get_abi (snd (load_protocol_from_json (parses_to S2_document) no_hash (loaded S3_document) []))"
proof -
  let ?pr = "the (load_from_json (parses_to S2_document) no_hash [])"
  have h: "load_from_json (parses_to S2_document) no_hash [] = Some ?pr" by code_simp
  have n: "car_protocol ?pr = ''counter''" and v: "car_version ?pr = ''1.0''" by code_simp+
  note A = abi_is_deterministic[where dump = id and parse = "parses_to S2_document" and ?h1.0 = no_hash
      and ?h2.0 = no_hash and s = "[]" and ?rt1.0 = new_runtime and ?rt2.0 = "loaded S3_document"
      and pr = ?pr and parse' = "parses_to S2_document" and s' = "[]" and pr' = ?pr]
  from A h have "get_abi (snd (load_protocol_from_json (parses_to S2_document) no_hash new_runtime []))
      = generate_abi (car_cpl ?pr) (car_protocol ?pr) (car_version ?pr)" by blast
  moreover from A have "get_abi (snd (load_protocol_from_json (parses_to S2_document) no_hash new_runtime []))
     = get_abi (snd (load_protocol_from_json (parses_to S2_document) no_hash (loaded S3_document) []))"
    by (simp del: map_option_eq_Some)
  ultimately show ?thesis by (simp add: loaded_def n v)
qed


section \<open>Failed loads\<close>

lemma failed_load_from_json:
  assumes "\<not> fst (load_protocol_from_json parse h rt s)"
  shows "snd (load_protocol_from_json parse h rt s) = rt\<lparr>protocol := load_from_json parse h s\<rparr>"
  using assms by (auto simp: load_protocol_from_json_def Let_def split: option.splits if_splits)

lemma failed_load_from_file:
  assumes "\<not> fst (load_protocol read_file parse h rt path)"
  shows "snd (load_protocol read_file parse h rt path)
           = rt\<lparr>protocol := load_from_file read_file parse h path\<rparr>"
  using assms by (auto simp: load_protocol_def Let_def split: option.splits if_splits)

text \<open>
  What every failed load leaves alone: the resolver with the state store, and the event
  log, so \<open>get_state\<close> returns what it returned before. A load fails when the loader
  returns no protocol or one that fails validation. After an unreadable file or a parse
  error no protocol is loaded and \<open>get_protocol_name\<close> returns the empty string.
  \<open>reset_state\<close> with no protocol loaded changes nothing.
\<close>

theorem failed_load_keeps_the_store:
  "(\<not> fst (load_protocol_from_json parse h rt s) \<longrightarrow>
      resolver (snd (load_protocol_from_json parse h rt s)) = resolver rt
      \<and> event_log (snd (load_protocol_from_json parse h rt s)) = event_log rt
      \<and> get_state (snd (load_protocol_from_json parse h rt s)) k d = get_state rt k d)
   \<and> (\<not> fst (load_protocol read_file parse h rt path) \<longrightarrow>
      resolver (snd (load_protocol read_file parse h rt path)) = resolver rt
      \<and> event_log (snd (load_protocol read_file parse h rt path)) = event_log rt
      \<and> get_state (snd (load_protocol read_file parse h rt path)) k d = get_state rt k d)
   \<and> (parse s = None \<longrightarrow>
      \<not> fst (load_protocol_from_json parse h rt s)
      \<and> get_protocol_name (snd (load_protocol_from_json parse h rt s)) = [])
   \<and> (read_file path = None \<or> (\<exists>c. read_file path = Some c \<and> parse c = None) \<longrightarrow>
      \<not> fst (load_protocol read_file parse h rt path)
      \<and> get_protocol_name (snd (load_protocol read_file parse h rt path)) = [])
   \<and> fst (load_protocol_from_json parse h rt s)
       = (case load_from_json parse h s of None \<Rightarrow> False | Some pr \<Rightarrow> validate_protocol pr)
   \<and> reset_state (rt\<lparr>protocol := None\<rparr>) = rt\<lparr>protocol := None\<rparr>"
proof -
  have f: "fst (load_protocol_from_json parse h rt s)
       = (case load_from_json parse h s of None \<Rightarrow> False | Some pr \<Rightarrow> validate_protocol pr)"
    by (simp add: load_protocol_from_json_def Let_def split: option.splits)
  have a: "\<not> fst (load_protocol_from_json parse h rt s) \<longrightarrow>
      resolver (snd (load_protocol_from_json parse h rt s)) = resolver rt
      \<and> event_log (snd (load_protocol_from_json parse h rt s)) = event_log rt
      \<and> get_state (snd (load_protocol_from_json parse h rt s)) k d = get_state rt k d"
    by (auto simp: failed_load_from_json get_state_def)
  have b: "\<not> fst (load_protocol read_file parse h rt path) \<longrightarrow>
      resolver (snd (load_protocol read_file parse h rt path)) = resolver rt
      \<and> event_log (snd (load_protocol read_file parse h rt path)) = event_log rt
      \<and> get_state (snd (load_protocol read_file parse h rt path)) k d = get_state rt k d"
    by (auto simp: failed_load_from_file get_state_def)
  have c: "parse s = None \<longrightarrow>
      \<not> fst (load_protocol_from_json parse h rt s)
      \<and> get_protocol_name (snd (load_protocol_from_json parse h rt s)) = []"
    by (simp add: load_protocol_from_json_def load_from_json_def get_protocol_name_def)
  have d: "read_file path = None \<or> (\<exists>c. read_file path = Some c \<and> parse c = None) \<longrightarrow>
      \<not> fst (load_protocol read_file parse h rt path)
      \<and> get_protocol_name (snd (load_protocol read_file parse h rt path)) = []"
    by (auto simp: load_protocol_def load_from_file_def load_from_json_def get_protocol_name_def)
  have e: "reset_state (rt\<lparr>protocol := None\<rparr>) = rt\<lparr>protocol := None\<rparr>"
    by (simp add: reset_state_def)
  from a b c d e f show ?thesis by blast
qed

text \<open>
  A runtime that holds the S2 protocol with \<open>count\<close> set to 7: a load that fails to parse,
  and a load of a document that fails validation.
\<close>

theorem failed_load_keeps_the_store_witness:
  "\<not> fst (load_protocol_from_json parse_fails no_hash (snd (set_state (loaded S2_document) ''count'' ''7'')) [])
   \<and> get_protocol_name
        (snd (load_protocol_from_json parse_fails no_hash (snd (set_state (loaded S2_document) ''count'' ''7'')) [])) = []
   \<and> get_state
        (snd (load_protocol_from_json parse_fails no_hash (snd (set_state (loaded S2_document) ''count'' ''7'')) []))
        ''count'' ''?'' = ''7''
   \<and> \<not> fst (load_protocol_from_json (parses_to rejected_document) no_hash
               (snd (set_state (loaded S2_document) ''count'' ''7'')) [])
   \<and> get_state
        (snd (load_protocol_from_json (parses_to rejected_document) no_hash
               (snd (set_state (loaded S2_document) ''count'' ''7'')) []))
        ''count'' ''?'' = ''7''"
proof -
  let ?rt = "snd (set_state (loaded S2_document) ''count'' ''7'')"
  have p: "parse_fails [] = None" by (simp add: parse_fails_def)
  have g: "get_state ?rt ''count'' ''?'' = ''7''" by code_simp
  have f: "\<not> fst (load_protocol_from_json (parses_to rejected_document) no_hash ?rt [])" by code_simp
  note A = failed_load_keeps_the_store[where parse = parse_fails and h = no_hash and rt = ?rt and s = "[]"
      and k = "''count''" and d = "''?''" and read_file = "\<lambda>x. None" and path = "[]"]
  note B = failed_load_keeps_the_store[where parse = "parses_to rejected_document" and h = no_hash
      and rt = ?rt and s = "[]" and k = "''count''" and d = "''?''" and read_file = "\<lambda>x. None"
      and path = "[]"]
  from A p have 1: "\<not> fst (load_protocol_from_json parse_fails no_hash ?rt [])"
    and 2: "get_protocol_name (snd (load_protocol_from_json parse_fails no_hash ?rt [])) = []"
    by blast+
  from A 1 g have 3: "get_state (snd (load_protocol_from_json parse_fails no_hash ?rt [])) ''count'' ''?'' = ''7''"
    by simp
  from B f g have 4: "get_state (snd (load_protocol_from_json (parses_to rejected_document) no_hash ?rt []))
      ''count'' ''?'' = ''7''"
    by simp
  from 1 2 3 f 4 show ?thesis by blast
qed

text \<open>
  Claim C10. The claim has every failed load drop the protocol, so that
  \<open>get_protocol_name\<close> returns the empty string afterwards. In the code
  \<open>load_protocol_from_json\<close> assigns the loader's result to \<open>protocol\<close> before it
  validates it; when validation fails it returns false and leaves the rejected document
  in place. With the S2 protocol loaded, a load of a document whose \<open>op\<close> is not
  \<open>deploy\<close> fails, and \<open>get_protocol_name\<close> then returns \<open>bad\<close>, the name in the
  rejected document. The parse-error path of the same function ends with no protocol.
\<close>

theorem rejected_document_stays_loaded:
  "\<not> fst (load_protocol_from_json (parses_to rejected_document) no_hash (loaded S2_document) [])
   \<and> get_protocol_name (loaded S2_document) = ''counter''
   \<and> get_protocol_name
        (snd (load_protocol_from_json (parses_to rejected_document) no_hash (loaded S2_document) [])) = ''bad''
   \<and> get_protocol_name
        (snd (load_protocol_from_json (parses_to rejected_document) no_hash (loaded S2_document) [])) \<noteq> []"
  by code_simp

text \<open>
  After that failed load the methods of the rejected document can be called, and they
  read the store of the protocol that was loaded before.
\<close>

lemma rejected_document_is_callable:
  "\<not> fst (load_protocol_from_json (parses_to rejected_document_with_method) no_hash
            (loaded S2_document) [])
   \<and> (case call_method D
              (snd (load_protocol_from_json (parses_to rejected_document_with_method) no_hash
                      (loaded S2_document) []))
              ''leak'' [] of
         Returns (res, rt') \<Rightarrow> res = ok_result ''0''
       | Undefined_Behaviour \<Rightarrow> False)
   \<and> (case call_method D
              (snd (load_protocol_from_json parse_fails no_hash (loaded S2_document) []))
              ''leak'' [] of
         Returns (res, rt') \<Rightarrow> \<not> success res \<and> error_message res = ''No protocol loaded''
       | Undefined_Behaviour \<Rightarrow> False)"
  by code_simp

end
